theory Spec2Isabelle
  imports Main
begin

section \<open>Python values and helpers\<close>

text \<open>
  The three modules of the repository (\<^verbatim>\<open>app.py\<close>, \<^verbatim>\<open>twilioo.py\<close>, \<^verbatim>\<open>postmark.py\<close>) are
  embedded function by function. A string is the list of the bytes of a Python \<^verbatim>\<open>str\<close> in
  UTF-8 (or of a \<^verbatim>\<open>bytes\<close> value, where said). Everything a function does
  besides returning a value (a chat-completion call, an SQL statement, an HTTP POST, a
  Streamlit call) is appended, in program order, to a list of events that the function
  returns together with its value; a Python exception that leaves a function is the
  \<open>Inl\<close> of a sum. Calls of \<^verbatim>\<open>logger\<close> are the only statements left out.
\<close>

definition NL :: string where
  "NL = [CHR 0x0A]"

text \<open>
  A parsed JSON document, as \<^verbatim>\<open>request.get_json()\<close> hands it to a view: \<open>JNull\<close> is
  Python's \<^verbatim>\<open>None\<close>, \<open>JObj\<close> a \<^verbatim>\<open>dict\<close> (its items, keys distinct). Numbers are the
  integers; fractional numbers are outside the model.
\<close>

datatype json =
    JNull
  | JBool bool
  | JInt int
  | JStr string
  | JArr "json list"
  | JObj "(string \<times> json) list"

text \<open>Python's truth value of a value (\<^verbatim>\<open>if not x\<close>).\<close>

fun truthy :: "json \<Rightarrow> bool" where
  "truthy JNull = False"
| "truthy (JBool b) = b"
| "truthy (JInt i) = (i \<noteq> 0)"
| "truthy (JStr s) = (s \<noteq> [])"
| "truthy (JArr xs) = (xs \<noteq> [])"
| "truthy (JObj kvs) = (kvs \<noteq> [])"

text \<open>\<^verbatim>\<open>d.get(key, default)\<close> on a dict.\<close>

definition dict_get :: "(string \<times> json) list \<Rightarrow> string \<Rightarrow> json \<Rightarrow> json" where
  "dict_get d key dflt = (case map_of d key of None \<Rightarrow> dflt | Some v \<Rightarrow> v)"

text \<open>
  \<^verbatim>\<open>request.form.get(key)\<close>: the first value of the field, or \<^verbatim>\<open>None\<close>.
\<close>

definition form_get :: "(string \<times> string) list \<Rightarrow> string \<Rightarrow> string option" where
  "form_get form key = map_of form key"

text \<open>Truth value of an optional string: \<^verbatim>\<open>None\<close> and \<^verbatim>\<open>""\<close> are false.\<close>

fun truthy_str :: "string option \<Rightarrow> bool" where
  "truthy_str None = False"
| "truthy_str (Some s) = (s \<noteq> [])"

text \<open>
  The characters \<^verbatim>\<open>str.strip()\<close> removes, in UTF-8: tab, line feed, vertical tab, form feed,
  carriage return, U+001C to U+001F, space, U+0085, U+00A0, U+1680, U+2000 to U+200A,
  U+2028, U+2029, U+202F, U+205F and U+3000.
\<close>

definition whitespace :: "string list" where
  "whitespace =
     map (\<lambda>c. [c]) [CHR 0x09, CHR 0x0A, CHR 0x0B, CHR 0x0C, CHR 0x0D,
                   CHR 0x1C, CHR 0x1D, CHR 0x1E, CHR 0x1F, CHR 0x20] @
     [[CHR 0xC2, CHR 0x85], [CHR 0xC2, CHR 0xA0], [CHR 0xE1, CHR 0x9A, CHR 0x80]] @
     map (\<lambda>c. [CHR 0xE2, CHR 0x80, c])
       [CHR 0x80, CHR 0x81, CHR 0x82, CHR 0x83, CHR 0x84, CHR 0x85, CHR 0x86, CHR 0x87,
        CHR 0x88, CHR 0x89, CHR 0x8A, CHR 0xA8, CHR 0xA9, CHR 0xAF] @
     [[CHR 0xE2, CHR 0x81, CHR 0x9F], [CHR 0xE3, CHR 0x80, CHR 0x80]]"

text \<open>
  Removing the whitespace characters at the front of a string; \<open>f\<close> is \<open>id\<close>, or \<open>rev\<close>
  when the string is read from its end.
\<close>

fun drop_spaces :: "(string \<Rightarrow> string) \<Rightarrow> string \<Rightarrow> string" where
  "drop_spaces f [] = []"
| "drop_spaces f (a # s) =
     (if f [a] \<in> set whitespace then drop_spaces f s
      else
        (case s of
           [] \<Rightarrow> a # s
         | b # t \<Rightarrow>
             if f [a, b] \<in> set whitespace then drop_spaces f t
             else
               (case t of
                  [] \<Rightarrow> a # s
                | c # u \<Rightarrow>
                    if f [a, b, c] \<in> set whitespace then drop_spaces f u else a # s)))"

text \<open>\<^verbatim>\<open>str.strip()\<close>.\<close>

definition strip :: "string \<Rightarrow> string" where
  "strip s = rev (drop_spaces rev (rev (drop_spaces id s)))"

text \<open>\<^verbatim>\<open>sep.join(parts)\<close>.\<close>

fun join :: "string \<Rightarrow> string list \<Rightarrow> string" where
  "join sep [] = []"
| "join sep [x] = x"
| "join sep (x # y # ys) = x @ sep @ join sep (y # ys)"

section \<open>The environment: configuration and external services\<close>

text \<open>
  A chat-completion request: model, messages (role, content), \<^verbatim>\<open>max_tokens\<close>, and the
  other keyword arguments as written at the call (name, Python literal).
\<close>

datatype chat_request =
  ChatRequest (req_model: string) (req_messages: "(string \<times> string) list")
    (req_max_tokens: nat) (req_extra: "(string \<times> string) list")

text \<open>
  The exceptions of the modelled code, each with the text \<^verbatim>\<open>str(e)\<close> gives.
  \<open>GroqError\<close> stands for whatever the chat-completion call (or reading its reply) raises,
  \<open>RequestsError\<close> for whatever \<^verbatim>\<open>requests.post\<close> raises.
\<close>

datatype exn =
    ValueError string
  | SqliteError string
  | UnboundLocalError string
  | AttributeError string
  | GroqError string
  | RequestsError string

fun exn_str :: "exn \<Rightarrow> string" where
  "exn_str (ValueError m) = m"
| "exn_str (SqliteError m) = m"
| "exn_str (UnboundLocalError m) = m"
| "exn_str (AttributeError m) = m"
| "exn_str (GroqError m) = m"
| "exn_str (RequestsError m) = m"

text \<open>
  The environment of a run: the variables read with \<^verbatim>\<open>os.getenv\<close>, and the answers of
  the services the code calls. \<open>chat_completions_create r\<close> is \<open>Inr content\<close> when the
  hosted model answers request \<open>r\<close> with the text \<open>content\<close>, and \<open>Inl m\<close> when the call
  raises an exception whose text is \<open>m\<close>. \<open>requests_post url headers data\<close> is the status
  code and text of the HTTP reply, or \<open>Inl m\<close> when no reply arrives. \<open>python_str v\<close> is
  Python's \<^verbatim>\<open>str(v)\<close> for a value \<open>v\<close> that is not a string, as an f-string formats it.
\<close>

record env =
  GROQ_API_KEY :: "string option"
  POSTMARK_API_KEY :: "string option"
  SENDER_EMAIL :: "string option"
  chat_completions_create :: "chat_request \<Rightarrow> string + string"
  requests_post :: "string \<Rightarrow> (string \<times> json) list \<Rightarrow> json \<Rightarrow> string + nat \<times> string"
  python_str :: "json \<Rightarrow> string"

text \<open>A value inside an f-string: \<^verbatim>\<open>f"{v}"\<close>.\<close>

definition fmt :: "env \<Rightarrow> json \<Rightarrow> string" where
  "fmt e v = (case v of JStr s \<Rightarrow> s | _ \<Rightarrow> python_str e v)"

text \<open>An optional string (\<^verbatim>\<open>None\<close> or a \<^verbatim>\<open>str\<close>) as a Python value.\<close>

definition opt_json :: "string option \<Rightarrow> json" where
  "opt_json v = (case v of None \<Rightarrow> JNull | Some s \<Rightarrow> JStr s)"

section \<open>The room store\<close>

text \<open>
  A stored column value of \<^verbatim>\<open>room_data\<close>. Both columns are declared \<^verbatim>\<open>TEXT\<close>, so a cell is
  \<^verbatim>\<open>NULL\<close>, a text (its stored bytes, which need not be valid UTF-8) or a BLOB (its bytes);
  a number written to such a column is kept as text. A row of the query
  \<^verbatim>\<open>SELECT title, description FROM room_data\<close> is a pair.
\<close>

datatype sql_value = SqlNull | SqlText string | SqlBlob string

type_synonym row = "sql_value \<times> sql_value"

text \<open>
  Strict UTF-8, as Python decodes a text cell: no stray or missing continuation byte, no
  overlong form, no surrogate, nothing above U+10FFFF.
\<close>

definition continuation :: "char \<Rightarrow> bool" where
  "continuation c = (0x80 \<le> (of_char c :: nat) \<and> (of_char c :: nat) \<le> 0xBF)"

fun valid_utf8 :: "string \<Rightarrow> bool" where
  "valid_utf8 [] = True"
| "valid_utf8 (a # s) =
     (if (of_char a :: nat) < 0x80 then valid_utf8 s
      else if 0xC2 \<le> (of_char a :: nat) \<and> (of_char a :: nat) \<le> 0xDF then
        (case s of
           b # t \<Rightarrow> continuation b \<and> valid_utf8 t
         | _ \<Rightarrow> False)
      else if 0xE0 \<le> (of_char a :: nat) \<and> (of_char a :: nat) \<le> 0xEF then
        (case s of
           b # c # t \<Rightarrow>
             continuation b \<and> continuation c
             \<and> (if a = CHR 0xE0 then 0xA0 \<le> (of_char b :: nat) else True)
             \<and> (if a = CHR 0xED then (of_char b :: nat) \<le> 0x9F else True)
             \<and> valid_utf8 t
         | _ \<Rightarrow> False)
      else if 0xF0 \<le> (of_char a :: nat) \<and> (of_char a :: nat) \<le> 0xF4 then
        (case s of
           b # c # d # t \<Rightarrow>
             continuation b \<and> continuation c \<and> continuation d
             \<and> (if a = CHR 0xF0 then 0x90 \<le> (of_char b :: nat) else True)
             \<and> (if a = CHR 0xF4 then (of_char b :: nat) \<le> 0x8F else True)
             \<and> valid_utf8 t
         | _ \<Rightarrow> False)
      else False)"

text \<open>
  \<^verbatim>\<open>repr\<close> of a \<^verbatim>\<open>bytes\<close> value, which is also its \<^verbatim>\<open>str\<close>: double quotes when the value
  holds a single quote and no double quote, single quotes otherwise.
\<close>

definition hexdigit :: "nat \<Rightarrow> char" where
  "hexdigit n = ''0123456789abcdef'' ! n"

definition bytes_escape :: "char \<Rightarrow> char \<Rightarrow> string" where
  "bytes_escape quote c =
     (if c = quote \<or> c = CHR 0x5C then [CHR 0x5C, c]
      else if c = CHR 0x09 then [CHR 0x5C, CHR ''t'']
      else if c = CHR 0x0A then [CHR 0x5C, CHR ''n'']
      else if c = CHR 0x0D then [CHR 0x5C, CHR ''r'']
      else if (of_char c :: nat) < 0x20 \<or> 0x7F \<le> (of_char c :: nat)
      then [CHR 0x5C, CHR ''x'', hexdigit (of_char c div 16), hexdigit (of_char c mod 16)]
      else [c])"

definition bytes_repr :: "string \<Rightarrow> string" where
  "bytes_repr bs =
     (let quote = (if CHR 0x27 \<in> set bs \<and> CHR 0x22 \<notin> set bs then CHR 0x22 else CHR 0x27)
      in ''b'' @ [quote] @ concat (map (bytes_escape quote) bs) @ [quote])"

text \<open>
  A fetched value inside an f-string: \<^verbatim>\<open>None\<close>, the text, or the \<^verbatim>\<open>repr\<close> of the bytes.
\<close>

fun fmt_sql :: "sql_value \<Rightarrow> string" where
  "fmt_sql SqlNull = ''None''"
| "fmt_sql (SqlText s) = s"
| "fmt_sql (SqlBlob bs) = bytes_repr bs"

text \<open>
  The file \<^verbatim>\<open>rooms.db\<close>: \<open>connect_error\<close> is \<open>Some m\<close> when \<^verbatim>\<open>sqlite3.connect\<close> raises
  \<^verbatim>\<open>sqlite3.Error\<close> with text \<open>m\<close> (for every connection of the request); \<open>room_data\<close> is
  the rows of the table in the order a \<^verbatim>\<open>SELECT\<close> returns them, or \<open>None\<close> when the table
  does not exist. A statement on an open connection fails only for a missing table, with
  SQLite's message; fetching its rows fails only for a text cell that cannot be decoded.
\<close>

record database =
  connect_error :: "string option"
  room_data :: "row list option"

text \<open>The three SQL statements of the repository.\<close>

datatype sql =
    CREATE_TABLE_IF_NOT_EXISTS_room_data
  | SELECT_COUNT_FROM_room_data
  | SELECT_title_description_FROM_room_data

datatype sql_result = NoRows | Count nat | Rows "row list"

text \<open>
  \<^verbatim>\<open>cursor.execute\<close>: the result (or the text of the \<^verbatim>\<open>sqlite3.Error\<close>) and the
  database afterwards.
\<close>

fun execute :: "sql \<Rightarrow> database \<Rightarrow> (string + sql_result) \<times> database" where
  "execute CREATE_TABLE_IF_NOT_EXISTS_room_data db =
     (Inr NoRows,
      db\<lparr>room_data := Some (case room_data db of None \<Rightarrow> [] | Some rs \<Rightarrow> rs)\<rparr>)"
| "execute SELECT_COUNT_FROM_room_data db =
     (case room_data db of
        None \<Rightarrow> (Inl ''no such table: room_data'', db)
      | Some rs \<Rightarrow> (Inr (Count (length rs)), db))"
| "execute SELECT_title_description_FROM_room_data db =
     (case room_data db of
        None \<Rightarrow> (Inl ''no such table: room_data'', db)
      | Some rs \<Rightarrow> (Inr (Rows rs), db))"

text \<open>
  The text of the \<^verbatim>\<open>sqlite3.OperationalError\<close> raised for a text cell that is not valid
  UTF-8, as CPython's \<^verbatim>\<open>sqlite3\<close> module builds it: the message is formatted into a buffer of
  200 bytes (the text up to its first zero byte), and every byte outside ASCII is replaced
  by U+FFFD.
\<close>

definition decode_error :: "string \<Rightarrow> string \<Rightarrow> string" where
  "decode_error column text =
     concat (map (\<lambda>c. if (of_char c :: nat) < 0x80 then [c] else [CHR 0xEF, CHR 0xBF, CHR 0xBD])
       (take 198 (''Could not decode to UTF-8 column '' @ [CHR 0x27] @ column @ [CHR 0x27] @
                  '' with text '' @ [CHR 0x27] @ takeWhile (\<lambda>c. c \<noteq> CHR 0x00) text @ [CHR 0x27])))"

text \<open>Converting one cell of the named column: \<open>Some m\<close> when that raises with text \<open>m\<close>.\<close>

fun undecodable :: "string \<Rightarrow> sql_value \<Rightarrow> string option" where
  "undecodable column (SqlText s) = (if valid_utf8 s then None else Some (decode_error column s))"
| "undecodable column _ = None"

text \<open>Converting the rows in order, each row from left to right, up to the first failure.\<close>

fun convert_rows :: "row list \<Rightarrow> string + row list" where
  "convert_rows [] = Inr []"
| "convert_rows ((title, description) # rs) =
     (case undecodable ''title'' title of
        Some m \<Rightarrow> Inl m
      | None \<Rightarrow>
          (case undecodable ''description'' description of
             Some m \<Rightarrow> Inl m
           | None \<Rightarrow>
               (case convert_rows rs of
                  Inl m \<Rightarrow> Inl m
                | Inr rs' \<Rightarrow> Inr ((title, description) # rs'))))"

text \<open>
  \<^verbatim>\<open>cursor.fetchall()\<close>: the rows as Python values, or the text of the
  \<^verbatim>\<open>sqlite3.OperationalError\<close> for the first cell that cannot be decoded. (Some Python
  versions raise it in \<^verbatim>\<open>cursor.execute\<close> when that cell is in the first row; the two calls
  follow each other inside the same \<^verbatim>\<open>try\<close>, so nothing here depends on which.)
\<close>

fun fetchall :: "sql_result \<Rightarrow> string + row list" where
  "fetchall (Rows rs) = convert_rows rs"
| "fetchall _ = Inr []"

section \<open>Events\<close>

text \<open>The Streamlit calls of \<^verbatim>\<open>app.py\<close>.\<close>

datatype st_call =
    St_set_page_config string string
  | St_title string
  | St_markdown string
  | St_write string
  | St_text_area string nat
  | St_button string string
  | St_spinner string
  | St_error string
  | St_success string
  | St_info string

datatype event =
    Connect string
  | Execute sql
  | Commit
  | Close
  | Chat chat_request
  | Post string "(string \<times> json) list" json
  | St st_call

text \<open>The chat-completion calls, the SQL statements and the HTTP posts of a trace.\<close>

fun chat_calls :: "event list \<Rightarrow> chat_request list" where
  "chat_calls [] = []"
| "chat_calls (Chat r # es) = r # chat_calls es"
| "chat_calls (_ # es) = chat_calls es"

fun statements :: "event list \<Rightarrow> sql list" where
  "statements [] = []"
| "statements (Execute s # es) = s # statements es"
| "statements (_ # es) = statements es"

fun store_events :: "event list \<Rightarrow> event list" where
  "store_events [] = []"
| "store_events (Connect f # es) = Connect f # store_events es"
| "store_events (Execute s # es) = Execute s # store_events es"
| "store_events (Commit # es) = Commit # store_events es"
| "store_events (Close # es) = Close # store_events es"
| "store_events (_ # es) = store_events es"

fun posts :: "event list \<Rightarrow> event list" where
  "posts [] = []"
| "posts (Post u h d # es) = Post u h d # posts es"
| "posts (_ # es) = posts es"

fun st_calls :: "event list \<Rightarrow> st_call list" where
  "st_calls [] = []"
| "st_calls (St c # es) = c # st_calls es"
| "st_calls (_ # es) = st_calls es"

section \<open>app.py: the browser UI\<close>

definition app_HOTEL_INFO :: string where
  "app_HOTEL_INFO = NL @ concat (map (\<lambda>line. line @ NL)
    [''Thira Beach Home is a luxurious seaside retreat that seamlessly blends Italian-Kerala heritage architecture with modern luxury, creating an unforgettable experience. Nestled just 150 meters from the magnificent Arabian Sea, our beachfront property offers a secluded and serene escape with breathtaking 180-degree ocean views. '',
     '''',
     ''The accommodations feature Kerala-styled heat-resistant tiled roofs, natural stone floors, and lime-plastered walls, ensuring a perfect harmony of comfort and elegance. Each of our Luxury Ocean View Rooms is designed to provide an exceptional stay, featuring a spacious 6x6.5 ft cot with a 10-inch branded mattress encased in a bamboo-knitted outer layer for supreme comfort.'',
     '''',
     ''Our facilities include:'',
     ''- Personalized climate control with air conditioning and ceiling fans'',
     ''- Wardrobe and wall mirror'',
     ''- Table with attached drawer and two chairs'',
     ''- Additional window bay bed for relaxation'',
     ''- 43-inch 4K television'',
     ''- Luxury bathroom with body jets, glass roof, and oval-shaped bathtub'',
     ''- Total room area of 250 sq. ft.'',
     '''',
     ''Modern amenities:'',
     ''- RO and UV-filtered drinking water'',
     ''- 24/7 hot water'',
     ''- Water processing unit with softened water'',
     ''- Uninterrupted power backup'',
     ''- High-speed internet with WiFi'',
     ''- Security with CCTV surveillance'',
     ''- Electric charging facility'',
     ''- Accessible design for differently-abled persons'',
     '''',
     ''Additional services:'',
     ''- Yoga classes'',
     ''- Cycling opportunities'',
     ''- On-site dining at Samudrakani Kitchen'',
     ''- Stylish lounge and dining area'',
     ''- Long veranda with ocean views'',
     '''',
     ''Location: Kothakulam Beach, Valappad, Thrissur, Kerala'',
     ''Contact: +91-94470 44788'',
     ''Email: thirabeachhomestay@gmail.com''])"

text \<open>
  \<^verbatim>\<open>init_app\<close>: the key must be set and not empty. The client it returns is the
  environment's \<open>chat_completions_create\<close>.
\<close>

definition app_init_app :: "env \<Rightarrow> exn + unit" where
  "app_init_app e =
     (if \<not> truthy_str (GROQ_API_KEY e)
      then Inl (ValueError
        ''GROQ_API_KEY not found in environment variables. Please check your .env file.'')
      else Inr ())"

text \<open>
  \<^verbatim>\<open>init_database\<close>. The \<^verbatim>\<open>except\<close> clause re-raises, and the \<^verbatim>\<open>finally\<close> clause closes
  the connection. When \<^verbatim>\<open>sqlite3.connect\<close> itself raises, \<^verbatim>\<open>conn\<close> is not bound, so
  \<^verbatim>\<open>conn.close()\<close> raises \<^verbatim>\<open>UnboundLocalError\<close> (text as of Python 3.11), which replaces
  the database error.
\<close>

definition app_init_database :: "database \<Rightarrow> (exn + unit) \<times> database \<times> event list" where
  "app_init_database db =
     (case connect_error db of
        Some m \<Rightarrow>
          (Inl (UnboundLocalError
             ''cannot access local variable 'conn' where it is not associated with a value''),
           db, [Connect ''rooms.db''])
      | None \<Rightarrow>
          (case execute CREATE_TABLE_IF_NOT_EXISTS_room_data db of
             (Inl m, db1) \<Rightarrow>
               (Inl (SqliteError m), db1,
                [Connect ''rooms.db'', Execute CREATE_TABLE_IF_NOT_EXISTS_room_data, Close])
           | (Inr _, db1) \<Rightarrow>
               (case execute SELECT_COUNT_FROM_room_data db1 of
                  (Inl m, db2) \<Rightarrow>
                    (Inl (SqliteError m), db2,
                     [Connect ''rooms.db'', Execute CREATE_TABLE_IF_NOT_EXISTS_room_data,
                      Execute SELECT_COUNT_FROM_room_data, Close])
                | (Inr _, db2) \<Rightarrow>
                    (Inr (), db2,
                     [Connect ''rooms.db'', Execute CREATE_TABLE_IF_NOT_EXISTS_room_data,
                      Execute SELECT_COUNT_FROM_room_data, Commit, Close]))))"

text \<open>\<^verbatim>\<open>connect_to_db\<close>: \<open>True\<close> for a connection, \<open>False\<close> for \<^verbatim>\<open>None\<close>.\<close>

definition app_connect_to_db :: "database \<Rightarrow> bool \<times> event list" where
  "app_connect_to_db db =
     (case connect_error db of
        None \<Rightarrow> (True, [Connect ''rooms.db''])
      | Some m \<Rightarrow>
          (False, [Connect ''rooms.db'', St (St_error (''Database connection error: '' @ m))]))"

text \<open>One element of the list comprehension of \<^verbatim>\<open>fetch_room_details\<close>.\<close>

definition room_block :: "row \<Rightarrow> string" where
  "room_block r =
     (case r of (title, description) \<Rightarrow>
        ''Room: '' @ fmt_sql title @ NL @ ''Description: '' @ fmt_sql description)"

text \<open>What both modules return once \<^verbatim>\<open>fetchall\<close> has given \<open>results\<close>.\<close>

definition combined_description :: "row list \<Rightarrow> string" where
  "combined_description results =
     (if results \<noteq> [] then join (NL @ NL) (map room_block results)
      else ''No room details available.'')"

definition app_fetch_room_details :: "database \<Rightarrow> string \<times> database \<times> event list" where
  "app_fetch_room_details db =
     (case app_connect_to_db db of
        (False, t) \<Rightarrow>
          (''Unable to fetch room details due to database connection error.'', db, t)
      | (True, t) \<Rightarrow>
          (case execute SELECT_title_description_FROM_room_data db of
             (Inl m, db1) \<Rightarrow>
               (''Error fetching room details: '' @ m, db1,
                t @ [Execute SELECT_title_description_FROM_room_data, Close])
           | (Inr res, db1) \<Rightarrow>
               (case fetchall res of
                  Inl m \<Rightarrow>
                    (''Error fetching room details: '' @ m, db1,
                     t @ [Execute SELECT_title_description_FROM_room_data, Close])
                | Inr results \<Rightarrow>
                    (combined_description results, db1,
                     t @ [Execute SELECT_title_description_FROM_room_data, Close]))))"

definition app_classify_prompt :: "string \<Rightarrow> string" where
  "app_classify_prompt query =
     ''Classify the following query into one of two categories:'' @ NL @
     ''        1. Checking details - if the query is about wanting to book a hotel room'' @ NL @
     ''        2. Getting information - if the query is about wanting to know general information related to the hotel.'' @ NL @
     NL @
     ''        Query: '' @ query @ NL @
     ''        '' @ NL @
     ''        Respond with only the category number (1 or 2).''"

definition app_extra :: "(string \<times> string) list" where
  "app_extra =
     [(''temperature'', ''0.5''), (''top_p'', ''1''), (''stop'', ''None''), (''stream'', ''False'')]"

definition app_classify_request :: "string \<Rightarrow> chat_request" where
  "app_classify_request query =
     ChatRequest ''llama-3.3-70b-versatile'' [(''user'', app_classify_prompt query)] 10 app_extra"

text \<open>
  \<^verbatim>\<open>classify_query\<close>: any exception is caught, shown, and turned into \<^verbatim>\<open>None\<close>.
\<close>

definition app_classify_query :: "env \<Rightarrow> string \<Rightarrow> string option \<times> event list" where
  "app_classify_query e query =
     (case chat_completions_create e (app_classify_request query) of
        Inl m \<Rightarrow>
          (None, [Chat (app_classify_request query),
                  St (St_error (''Error classifying query: '' @ m))])
      | Inr content \<Rightarrow> (Some (strip content), [Chat (app_classify_request query)]))"

definition app_generate_request :: "string \<Rightarrow> string \<Rightarrow> chat_request" where
  "app_generate_request query context =
     ChatRequest ''llama-3.3-70b-versatile''
       [(''system'', ''You are Maya, a friendly and professional hotel receptionist at Thira Beach Home. Your job is to assist guests by providing accurate and helpful information about the hotel, its amenities, and room availability..''),
        (''user'', ''Query: '' @ query @ NL @ ''Context: '' @ context)]
       300 app_extra"

text \<open>\<^verbatim>\<open>generate_response\<close>: any exception becomes an inline error string.\<close>

definition app_generate_response :: "env \<Rightarrow> string \<Rightarrow> string \<Rightarrow> string \<times> event list" where
  "app_generate_response e query context =
     (case chat_completions_create e (app_generate_request query context) of
        Inl m \<Rightarrow> (''Error generating response: '' @ m, [Chat (app_generate_request query context)])
      | Inr content \<Rightarrow> (content, [Chat (app_generate_request query context)]))"

text \<open>The handler of \<^verbatim>\<open>main\<close>'s \<^verbatim>\<open>except Exception\<close>.\<close>

definition app_main_except :: "exn \<Rightarrow> event list" where
  "app_main_except ex =
     [St (St_error (''An error occurred: '' @ exn_str ex)),
      St (St_info ''Please make sure you have set up your .env file with the GROQ_API_KEY'')]"

text \<open>The page drawn before the button is tested.\<close>

definition app_page :: "event list" where
  "app_page =
     [St (St_title ''Thira Beach Home''),
      St (St_markdown ''---''),
      St (St_write ''Welcome! Ask any questions about our hotel or room bookings.''),
      St (St_text_area ''Enter your query:'' 100),
      St (St_button ''Submit Query'' ''primary'')]"

text \<open>
  The body of \<^verbatim>\<open>if st.button(...)\<close>: what happens to a submitted query, on the
  database \<open>db\<close> that \<^verbatim>\<open>init_database\<close> left.
\<close>

definition app_submit :: "env \<Rightarrow> database \<Rightarrow> string \<Rightarrow> database \<times> event list" where
  "app_submit e db query =
     (if query = [] then (db, [St (St_error ''Please enter a query before submitting.'')])
      else
        (case app_classify_query e query of (query_type, t1) \<Rightarrow>
           if \<not> truthy_str query_type
           then (db, [St (St_spinner ''Processing your query...'')] @ t1 @
                     [St (St_error ''Failed to classify your query. Please try again.'')])
           else if query_type = Some ''1''
           then
             (case app_fetch_room_details db of (room_details, db1, t2) \<Rightarrow>
                (case app_generate_response e query room_details of (response, t3) \<Rightarrow>
                   (db1, [St (St_spinner ''Processing your query...'')] @ t1 @ t2 @ t3 @
                         [St (St_success ''Response:''), St (St_write response)])))
           else if query_type = Some ''2''
           then
             (case app_generate_response e query app_HOTEL_INFO of (response, t3) \<Rightarrow>
                (db, [St (St_spinner ''Processing your query...'')] @ t1 @ t3 @
                     [St (St_success ''Response:''), St (St_write response)]))
           else (db, [St (St_spinner ''Processing your query...'')] @ t1 @
                     [St (St_error ''Invalid query classification. Please try again.'')])))"

text \<open>
  \<^verbatim>\<open>main\<close>, one run of the Streamlit script: \<open>query\<close> is the content of the text area,
  \<open>clicked\<close> whether the button was pressed. The page icon is the UTF-8 encoding of U+1F3E8.
\<close>

definition app_main :: "env \<Rightarrow> database \<Rightarrow> string \<Rightarrow> bool \<Rightarrow> database \<times> event list" where
  "app_main e db query clicked =
     (let config = [St (St_set_page_config ''Thira Beach Home''
                          [CHR 0xF0, CHR 0x9F, CHR 0x8F, CHR 0xA8])] in
      case app_init_app e of
        Inl ex \<Rightarrow> (db, config @ app_main_except ex)
      | Inr _ \<Rightarrow>
          (case app_init_database db of
             (Inl ex, db1, t0) \<Rightarrow> (db1, config @ t0 @ app_main_except ex)
           | (Inr _, db1, t0) \<Rightarrow>
               if clicked
               then (case app_submit e db1 query of (db2, t) \<Rightarrow>
                       (db2, config @ t0 @ app_page @ t))
               else (db1, config @ t0 @ app_page)))"

section \<open>twilioo.py: the JSON endpoint and the messaging webhook\<close>

text \<open>
  The reply of a Flask view: payload, status code, and the headers the view sets itself.
  \<open>Json v\<close> is \<^verbatim>\<open>jsonify(v)\<close>, \<open>Text s\<close> a literal string, and \<open>Twiml s\<close> is
  \<^verbatim>\<open>str(response)\<close> for a \<^verbatim>\<open>MessagingResponse\<close> holding the single message \<open>s\<close>. A view
  that raises gives \<open>Inl\<close>: Flask answers it with its own 500 page.
\<close>

datatype payload = Json json | Text string | Twiml string

datatype response =
  Response (payload: payload) (status: nat) (headers: "(string \<times> string) list")

text \<open>The name Python gives the type of a value, as an \<^verbatim>\<open>AttributeError\<close> prints it.\<close>

fun type_name :: "json \<Rightarrow> string" where
  "type_name JNull = ''NoneType''"
| "type_name (JBool b) = ''bool''"
| "type_name (JInt i) = ''int''"
| "type_name (JStr s) = ''str''"
| "type_name (JArr xs) = ''list''"
| "type_name (JObj kvs) = ''dict''"

text \<open>\<^verbatim>\<open>data.get\<close> on a value that is not a dict.\<close>

definition no_get :: "json \<Rightarrow> exn" where
  "no_get data = AttributeError
     ([CHR 0x27] @ type_name data @ [CHR 0x27] @ '' object has no attribute 'get'' @ [CHR 0x27])"

text \<open>The check at import: the module does not load without the key.\<close>

definition twilioo_load :: "env \<Rightarrow> exn + unit" where
  "twilioo_load e =
     (if \<not> truthy_str (GROQ_API_KEY e)
      then Inl (ValueError ''GROQ_API_KEY not found in environment variables'')
      else Inr ())"

definition twilioo_HOTEL_INFO :: string where
  "twilioo_HOTEL_INFO = ''Thira Beach Home is a luxurious seaside retreat that seamlessly blends Italian-Kerala heritage architecture with modern luxury...''"

text \<open>
  \<^verbatim>\<open>fetch_room_details\<close>: nothing is caught here, and a failing \<^verbatim>\<open>execute\<close> or
  \<^verbatim>\<open>fetchall\<close> leaves the connection open.
\<close>

definition twilioo_fetch_room_details :: "database \<Rightarrow> (exn + string) \<times> database \<times> event list" where
  "twilioo_fetch_room_details db =
     (case connect_error db of
        Some m \<Rightarrow> (Inl (SqliteError m), db, [Connect ''rooms.db''])
      | None \<Rightarrow>
          (case execute SELECT_title_description_FROM_room_data db of
             (Inl m, db1) \<Rightarrow>
               (Inl (SqliteError m), db1,
                [Connect ''rooms.db'', Execute SELECT_title_description_FROM_room_data])
           | (Inr res, db1) \<Rightarrow>
               (case fetchall res of
                  Inl m \<Rightarrow>
                    (Inl (SqliteError m), db1,
                     [Connect ''rooms.db'', Execute SELECT_title_description_FROM_room_data])
                | Inr results \<Rightarrow>
                    (Inr (combined_description results), db1,
                     [Connect ''rooms.db'', Execute SELECT_title_description_FROM_room_data,
                      Close]))))"

definition twilioo_classify_prompt :: "string \<Rightarrow> string" where
  "twilioo_classify_prompt query =
     ''Classify the following query:'' @ NL @
     ''    1. Checking details - if it's about booking a hotel room'' @ NL @
     ''    2. Getting information - if it's about general hotel info.'' @ NL @
     ''    '' @ NL @
     ''    Query: '' @ query @ NL @
     ''    Respond with only the number (1 or 2).''"

definition twilioo_classify_request :: "env \<Rightarrow> json \<Rightarrow> chat_request" where
  "twilioo_classify_request e query =
     ChatRequest ''llama-3.3-70b-versatile'' [(''user'', twilioo_classify_prompt (fmt e query))] 10 []"

definition twilioo_classify_query :: "env \<Rightarrow> json \<Rightarrow> (exn + string) \<times> event list" where
  "twilioo_classify_query e query =
     (case chat_completions_create e (twilioo_classify_request e query) of
        Inl m \<Rightarrow> (Inl (GroqError m), [Chat (twilioo_classify_request e query)])
      | Inr content \<Rightarrow> (Inr (strip content), [Chat (twilioo_classify_request e query)]))"

definition twilioo_generate_request :: "env \<Rightarrow> json \<Rightarrow> string \<Rightarrow> chat_request" where
  "twilioo_generate_request e query context =
     ChatRequest ''llama-3.3-70b-versatile''
       [(''system'', ''You are Maya, a friendly hotel receptionist.''),
        (''user'', ''Query: '' @ fmt e query @ NL @ ''Context: '' @ context)]
       300 []"

definition twilioo_generate_response :: "env \<Rightarrow> json \<Rightarrow> string \<Rightarrow> (exn + string) \<times> event list" where
  "twilioo_generate_response e query context =
     (case chat_completions_create e (twilioo_generate_request e query context) of
        Inl m \<Rightarrow> (Inl (GroqError m), [Chat (twilioo_generate_request e query context)])
      | Inr content \<Rightarrow> (Inr content, [Chat (twilioo_generate_request e query context)]))"

text \<open>\<^verbatim>\<open>POST /query\<close>; \<open>data\<close> is what \<^verbatim>\<open>request.get_json()\<close> returned.\<close>

definition handle_query :: "env \<Rightarrow> database \<Rightarrow> json \<Rightarrow> (exn + response) \<times> database \<times> event list" where
  "handle_query e db data =
     (case data of
        JObj d \<Rightarrow>
          (let query = dict_get d ''query'' (JStr '''') in
           if \<not> truthy query
           then (Inr (Response (Json (JObj [(''error'', JStr ''Query parameter is required'')])) 400 []),
                 db, [])
           else
             (case twilioo_classify_query e query of
                (Inl ex, t1) \<Rightarrow> (Inl ex, db, t1)
              | (Inr query_type, t1) \<Rightarrow>
                  if query_type = ''1''
                  then
                    (case twilioo_fetch_room_details db of
                       (Inl ex, db1, t2) \<Rightarrow> (Inl ex, db1, t1 @ t2)
                     | (Inr context, db1, t2) \<Rightarrow>
                         (case twilioo_generate_response e query context of
                            (Inl ex, t3) \<Rightarrow> (Inl ex, db1, t1 @ t2 @ t3)
                          | (Inr response, t3) \<Rightarrow>
                              (Inr (Response (Json (JObj [(''response'', JStr response)])) 200 []),
                               db1, t1 @ t2 @ t3)))
                  else if query_type = ''2''
                  then
                    (case twilioo_generate_response e query twilioo_HOTEL_INFO of
                       (Inl ex, t3) \<Rightarrow> (Inl ex, db, t1 @ t3)
                     | (Inr response, t3) \<Rightarrow>
                         (Inr (Response (Json (JObj [(''response'', JStr response)])) 200 []),
                          db, t1 @ t3))
                  else
                    (Inr (Response (Json (JObj [(''error'', JStr ''Invalid query classification'')]))
                            500 []),
                     db, t1)))
      | _ \<Rightarrow> (Inl (no_get data), db, []))"

text \<open>\<^verbatim>\<open>POST /twilio_webhook\<close>; \<open>form\<close> is \<^verbatim>\<open>request.form\<close>.\<close>

definition twilio_webhook ::
  "env \<Rightarrow> database \<Rightarrow> (string \<times> string) list \<Rightarrow> (exn + response) \<times> database \<times> event list" where
  "twilio_webhook e db form =
     (let phone_number = form_get form ''From'';
          message_body = form_get form ''Body'' in
      if \<not> truthy_str phone_number \<or> \<not> truthy_str message_body
      then (Inr (Response
                   (Text ''<Response><Message>Error: Phone number and message are required.</Message></Response>'')
                   400 [(''Content-Type'', ''application/xml'')]),
            db, [])
      else
        (case twilioo_classify_query e (opt_json message_body) of
           (Inl ex, t1) \<Rightarrow> (Inl ex, db, t1)
         | (Inr query_type, t1) \<Rightarrow>
             if query_type = ''1''
             then
               (case twilioo_fetch_room_details db of
                  (Inl ex, db1, t2) \<Rightarrow> (Inl ex, db1, t1 @ t2)
                | (Inr details, db1, t2) \<Rightarrow>
                    if details \<noteq> []
                    then
                      (case twilioo_generate_response e (opt_json message_body) details of
                         (Inl ex, t3) \<Rightarrow> (Inl ex, db1, t1 @ t2 @ t3)
                       | (Inr response_text, t3) \<Rightarrow>
                           (Inr (Response (Twiml response_text) 200
                                   [(''Content-Type'', ''application/xml'')]),
                            db1, t1 @ t2 @ t3))
                    else
                      (Inr (Response (Twiml ''No details found for that number.'') 200
                              [(''Content-Type'', ''application/xml'')]),
                       db1, t1 @ t2))
             else if query_type = ''2''
             then
               (case twilioo_generate_response e (opt_json message_body) twilioo_HOTEL_INFO of
                  (Inl ex, t3) \<Rightarrow> (Inl ex, db, t1 @ t3)
                | (Inr response_text, t3) \<Rightarrow>
                    (Inr (Response (Twiml response_text) 200
                            [(''Content-Type'', ''application/xml'')]),
                     db, t1 @ t3))
             else
               (Inr (Response (Twiml ''Unable to classify your query.'') 200
                       [(''Content-Type'', ''application/xml'')]),
                db, t1)))"

section \<open>postmark.py: the email endpoint\<close>

definition send_email :: "env \<Rightarrow> json \<Rightarrow> json \<Rightarrow> json \<Rightarrow> (exn + json) \<times> event list" where
  "send_email e to_email subject body =
     (let postmark_url = ''https://api.postmarkapp.com/email'';
          hdrs = [(''Accept'', JStr ''application/json''),
                  (''Content-Type'', JStr ''application/json''),
                  (''X-Postmark-Server-Token'', opt_json (POSTMARK_API_KEY e))];
          data = JObj [(''From'', opt_json (SENDER_EMAIL e)),
                       (''To'', to_email),
                       (''Subject'', subject),
                       (''TextBody'', body)] in
      case requests_post e postmark_url hdrs data of
        Inl m \<Rightarrow> (Inl (RequestsError m), [Post postmark_url hdrs data])
      | Inr (status_code, txt) \<Rightarrow>
          (if status_code = 200
           then Inr (JObj [(''success'', JBool True), (''message'', JStr ''Email sent successfully'')])
           else Inr (JObj [(''success'', JBool False), (''error'', JStr txt)]),
           [Post postmark_url hdrs data]))"

text \<open>\<^verbatim>\<open>POST /send_email\<close>; \<open>data\<close> is what \<^verbatim>\<open>request.get_json()\<close> returned.\<close>

definition handle_send_email :: "env \<Rightarrow> json \<Rightarrow> (exn + response) \<times> event list" where
  "handle_send_email e data =
     (case data of
        JObj d \<Rightarrow>
          (let email = dict_get d ''email'' JNull;
               subject = dict_get d ''subject'' (JStr ''Room Availability at Thira Beach Home'');
               body = dict_get d ''body'' (JStr ''Here are the details of the available rooms.'') in
           if \<not> truthy email
           then (Inr (Response (Json (JObj [(''error'', JStr ''Email is required'')])) 400 []), [])
           else
             (case send_email e email subject body of
                (Inl ex, t) \<Rightarrow> (Inl ex, t)
              | (Inr result, t) \<Rightarrow> (Inr (Response (Json result) 200 []), t)))
      | _ \<Rightarrow> (Inl (no_get data), []))"

section \<open>Definitions for the statements\<close>

text \<open>The room records of the store: none when the table does not exist.\<close>

definition records :: "database \<Rightarrow> row list" where
  "records db = (case room_data db of None \<Rightarrow> [] | Some rs \<Rightarrow> rs)"

text \<open>
  The context as the specification words it: every row as
  \<^verbatim>\<open>Room: <title>\nDescription: <description>\<close>, in table order, with a blank line between
  two rows.
\<close>

fun spec_room_context :: "row list \<Rightarrow> string" where
  "spec_room_context [] = []"
| "spec_room_context [(t, d)] = ''Room: '' @ fmt_sql t @ NL @ ''Description: '' @ fmt_sql d"
| "spec_room_context ((t, d) # r # rs) =
     ''Room: '' @ fmt_sql t @ NL @ ''Description: '' @ fmt_sql d @ NL @ NL @ spec_room_context (r # rs)"

text \<open>Every text cell of the rows is valid UTF-8, so that \<^verbatim>\<open>fetchall\<close> returns the rows.\<close>

fun text_ok :: "sql_value \<Rightarrow> bool" where
  "text_ok (SqlText s) = valid_utf8 s"
| "text_ok _ = True"

fun decodable :: "row list \<Rightarrow> bool" where
  "decodable [] = True"
| "decodable ((title, description) # rs) =
     (text_ok title \<and> text_ok description \<and> decodable rs)"

text \<open>The store events of \<^verbatim>\<open>init_database\<close> when nothing fails.\<close>

definition startup_events :: "event list" where
  "startup_events =
     [Connect ''rooms.db'', Execute CREATE_TABLE_IF_NOT_EXISTS_room_data,
      Execute SELECT_COUNT_FROM_room_data, Commit, Close]"

text \<open>
  A sample environment (the classifier answers \<open>answer\<close>, the generator a fixed greeting,
  the mail service accepts), a sample store and sample rows, for the instances below.
\<close>

definition demo_env :: "string \<Rightarrow> env" where
  "demo_env answer =
     \<lparr>GROQ_API_KEY = Some ''gsk_demo'',
      POSTMARK_API_KEY = Some ''pm_demo'',
      SENDER_EMAIL = Some ''frontdesk@example.com'',
      chat_completions_create =
        (\<lambda>r. if req_max_tokens r = 10 then Inr answer else Inr ''Welcome to Thira Beach Home.''),
      requests_post = (\<lambda>url hdrs data. Inr (200, ''OK'')),
      python_str = (\<lambda>v. ''<value>'')\<rparr>"

definition demo_db :: "row list \<Rightarrow> database" where
  "demo_db rows = \<lparr>connect_error = None, room_data = Some rows\<rparr>"

definition demo_bad_rows :: "row list" where
  "demo_bad_rows = [(SqlText [CHR 0xFF], SqlText ''Sea view'')]"

definition demo_rows :: "row list" where
  "demo_rows = [(SqlText ''Ocean View'', SqlText ''Sea-facing room''), (SqlText ''Garden'', SqlNull)]"


section \<open>Auxiliary facts\<close>

lemma chat_calls_append [simp]: "chat_calls (a @ b) = chat_calls a @ chat_calls b"
  by (induction a rule: chat_calls.induct) simp_all

lemma statements_append [simp]: "statements (a @ b) = statements a @ statements b"
  by (induction a rule: statements.induct) simp_all

lemma store_events_append [simp]: "store_events (a @ b) = store_events a @ store_events b"
  by (induction a rule: store_events.induct) simp_all

lemma st_calls_append [simp]: "st_calls (a @ b) = st_calls a @ st_calls b"
  by (induction a rule: st_calls.induct) simp_all

lemma posts_append [simp]: "posts (a @ b) = posts a @ posts b"
  by (induction a rule: posts.induct) simp_all

lemma join_room_blocks: "join (NL @ NL) (map room_block rows) = spec_room_context rows"
  by (induction rows rule: spec_room_context.induct) (simp_all add: room_block_def)

lemma combined_description_nonempty:
  "rows \<noteq> [] \<Longrightarrow> combined_description rows = spec_room_context rows"
  by (simp add: combined_description_def join_room_blocks)

lemma app_init_database_ok:
  "connect_error db = None \<Longrightarrow>
   app_init_database db = (Inr (), db\<lparr>room_data := Some (records db)\<rparr>, startup_events)"
  by (simp add: app_init_database_def records_def startup_events_def split: option.splits)

lemma undecodable_text_ok: "text_ok v \<Longrightarrow> undecodable column v = None"
  by (cases v) simp_all

lemma convert_rows_decodable: "decodable rows \<Longrightarrow> convert_rows rows = Inr rows"
  by (induction rows rule: convert_rows.induct) (simp_all add: undecodable_text_ok)

lemma app_fetch_room_details_ok:
  "connect_error db = None \<Longrightarrow> room_data db = Some rows \<Longrightarrow> decodable rows \<Longrightarrow>
   app_fetch_room_details db =
     (combined_description rows, db,
      [Connect ''rooms.db'', Execute SELECT_title_description_FROM_room_data, Close])"
  by (simp add: app_fetch_room_details_def app_connect_to_db_def convert_rows_decodable)

lemma twilioo_fetch_room_details_ok:
  "connect_error db = None \<Longrightarrow> room_data db = Some rows \<Longrightarrow> decodable rows \<Longrightarrow>
   twilioo_fetch_room_details db =
     (Inr (combined_description rows), db,
      [Connect ''rooms.db'', Execute SELECT_title_description_FROM_room_data, Close])"
  by (simp add: twilioo_fetch_room_details_def convert_rows_decodable)

lemma app_main_started:
  "truthy_str (GROQ_API_KEY e) \<Longrightarrow> connect_error db = None \<Longrightarrow>
   app_main e db query True =
     (case app_submit e (db\<lparr>room_data := Some (records db)\<rparr>) query of (db2, t) \<Rightarrow>
        (db2, [St (St_set_page_config ''Thira Beach Home'' [CHR 0xF0, CHR 0x9F, CHR 0x8F, CHR 0xA8])]
              @ startup_events @ app_page @ t))"
  by (simp add: app_main_def app_init_app_def app_init_database_ok)


lemma app_classify_query_Some:
  "fst (app_classify_query e query) = Some c \<Longrightarrow>
   app_classify_query e query = (Some c, [Chat (app_classify_request query)])"
  by (simp add: app_classify_query_def split: sum.splits)

lemma app_generate_response_events:
  "snd (app_generate_response e query context) = [Chat (app_generate_request query context)]"
  by (simp add: app_generate_response_def split: sum.splits)

lemma twilioo_classify_query_Inr:
  "fst (twilioo_classify_query e query) = Inr c \<Longrightarrow>
   twilioo_classify_query e query = (Inr c, [Chat (twilioo_classify_request e query)])"
  by (simp add: twilioo_classify_query_def split: sum.splits)

lemma twilioo_generate_response_events:
  "snd (twilioo_generate_response e query context) =
     [Chat (twilioo_generate_request e query context)]"
  by (simp add: twilioo_generate_response_def split: sum.splits)

lemma combined_description_not_empty: "combined_description rows \<noteq> []"
proof (cases rows rule: spec_room_context.cases)
  case 1
  then show ?thesis by (simp add: combined_description_def)
next
  case (2 t d)
  then show ?thesis by (simp add: combined_description_def room_block_def)
next
  case (3 t d r rs)
  then show ?thesis by (simp add: combined_description_def room_block_def)
qed

lemma app_submit_rooms:
  assumes "query \<noteq> []" "fst (app_classify_query e query) = Some ''1''"
    and "connect_error db = None" "room_data db = Some rows" "decodable rows"
  shows "app_submit e db query =
           (db, [St (St_spinner ''Processing your query...''),
                 Chat (app_classify_request query),
                 Connect ''rooms.db'', Execute SELECT_title_description_FROM_room_data, Close,
                 Chat (app_generate_request query (combined_description rows)),
                 St (St_success ''Response:''),
                 St (St_write (fst (app_generate_response e query (combined_description rows))))])"
proof -
  obtain response t3 where g:
    "app_generate_response e query (combined_description rows) = (response, t3)"
    by (cases "app_generate_response e query (combined_description rows)")
  have t3: "t3 = [Chat (app_generate_request query (combined_description rows))]"
    using app_generate_response_events [of e query "combined_description rows"] g by simp
  show ?thesis
    using assms(1) app_classify_query_Some [OF assms(2)] g t3
      app_fetch_room_details_ok [OF assms(3) assms(4) assms(5)]
    by (simp add: app_submit_def)
qed

lemma app_submit_info:
  assumes "query \<noteq> []" "fst (app_classify_query e query) = Some ''2''"
  shows "app_submit e db query =
           (db, [St (St_spinner ''Processing your query...''),
                 Chat (app_classify_request query),
                 Chat (app_generate_request query app_HOTEL_INFO),
                 St (St_success ''Response:''),
                 St (St_write (fst (app_generate_response e query app_HOTEL_INFO)))])"
proof -
  obtain response t3 where g: "app_generate_response e query app_HOTEL_INFO = (response, t3)"
    by (cases "app_generate_response e query app_HOTEL_INFO")
  have t3: "t3 = [Chat (app_generate_request query app_HOTEL_INFO)]"
    using app_generate_response_events [of e query app_HOTEL_INFO] g by simp
  show ?thesis
    using assms(1) app_classify_query_Some [OF assms(2)] g t3
    by (simp add: app_submit_def)
qed

lemma app_submit_unclassified:
  assumes "query \<noteq> []" "fst (app_classify_query e query) = Some c" "c \<noteq> ''1''" "c \<noteq> ''2''"
  shows "app_submit e db query =
           (db, [St (St_spinner ''Processing your query...''),
                 Chat (app_classify_request query),
                 St (St_error (if c = [] then ''Failed to classify your query. Please try again.''
                               else ''Invalid query classification. Please try again.''))])"
  using assms(1,3,4) app_classify_query_Some [OF assms(2)]
  by (simp add: app_submit_def)

lemma handle_query_rooms:
  assumes "truthy (dict_get d ''query'' (JStr ''''))"
    and "fst (twilioo_classify_query e (dict_get d ''query'' (JStr ''''))) = Inr ''1''"
    and "connect_error db = None" "room_data db = Some rows" "decodable rows"
  shows "handle_query e db (JObj d) =
           (case fst (twilioo_generate_response e (dict_get d ''query'' (JStr ''''))
                        (combined_description rows)) of
              Inl ex \<Rightarrow> Inl ex
            | Inr response \<Rightarrow> Inr (Response (Json (JObj [(''response'', JStr response)])) 200 []),
            db,
            [Chat (twilioo_classify_request e (dict_get d ''query'' (JStr ''''))),
             Connect ''rooms.db'', Execute SELECT_title_description_FROM_room_data, Close,
             Chat (twilioo_generate_request e (dict_get d ''query'' (JStr ''''))
                     (combined_description rows))])"
proof -
  let ?q = "dict_get d ''query'' (JStr '''')"
  obtain r t3 where g:
    "twilioo_generate_response e ?q (combined_description rows) = (r, t3)"
    by (cases "twilioo_generate_response e ?q (combined_description rows)")
  have t3: "t3 = [Chat (twilioo_generate_request e ?q (combined_description rows))]"
    using twilioo_generate_response_events [of e ?q "combined_description rows"] g by simp
  show ?thesis
    using assms(1) twilioo_classify_query_Inr [OF assms(2)] g t3
      twilioo_fetch_room_details_ok [OF assms(3) assms(4) assms(5)]
    by (cases r) (simp_all add: handle_query_def Let_def)
qed

lemma handle_query_info:
  assumes "truthy (dict_get d ''query'' (JStr ''''))"
    and "fst (twilioo_classify_query e (dict_get d ''query'' (JStr ''''))) = Inr ''2''"
  shows "handle_query e db (JObj d) =
           (case fst (twilioo_generate_response e (dict_get d ''query'' (JStr ''''))
                        twilioo_HOTEL_INFO) of
              Inl ex \<Rightarrow> Inl ex
            | Inr response \<Rightarrow> Inr (Response (Json (JObj [(''response'', JStr response)])) 200 []),
            db,
            [Chat (twilioo_classify_request e (dict_get d ''query'' (JStr ''''))),
             Chat (twilioo_generate_request e (dict_get d ''query'' (JStr '''')) twilioo_HOTEL_INFO)])"
proof -
  let ?q = "dict_get d ''query'' (JStr '''')"
  obtain r t3 where g: "twilioo_generate_response e ?q twilioo_HOTEL_INFO = (r, t3)"
    by (cases "twilioo_generate_response e ?q twilioo_HOTEL_INFO")
  have t3: "t3 = [Chat (twilioo_generate_request e ?q twilioo_HOTEL_INFO)]"
    using twilioo_generate_response_events [of e ?q twilioo_HOTEL_INFO] g by simp
  show ?thesis
    using assms(1) twilioo_classify_query_Inr [OF assms(2)] g t3
    by (cases r) (simp_all add: handle_query_def Let_def)
qed

lemma handle_query_unclassified:
  assumes "truthy (dict_get d ''query'' (JStr ''''))"
    and "fst (twilioo_classify_query e (dict_get d ''query'' (JStr ''''))) = Inr c"
    and "c \<noteq> ''1''" "c \<noteq> ''2''"
  shows "handle_query e db (JObj d) =
           (Inr (Response (Json (JObj [(''error'', JStr ''Invalid query classification'')])) 500 []),
            db,
            [Chat (twilioo_classify_request e (dict_get d ''query'' (JStr '''')))])"
  using assms(1,3,4) twilioo_classify_query_Inr [OF assms(2)]
  by (simp add: handle_query_def Let_def)

lemma twilio_webhook_rooms:
  assumes "truthy_str (form_get form ''From'')" "form_get form ''Body'' = Some body" "body \<noteq> []"
    and "fst (twilioo_classify_query e (JStr body)) = Inr ''1''"
    and "connect_error db = None" "room_data db = Some rows" "decodable rows"
  shows "twilio_webhook e db form =
           (case fst (twilioo_generate_response e (JStr body) (combined_description rows)) of
              Inl ex \<Rightarrow> Inl ex
            | Inr response_text \<Rightarrow>
                Inr (Response (Twiml response_text) 200 [(''Content-Type'', ''application/xml'')]),
            db,
            [Chat (twilioo_classify_request e (JStr body)),
             Connect ''rooms.db'', Execute SELECT_title_description_FROM_room_data, Close,
             Chat (twilioo_generate_request e (JStr body) (combined_description rows))])"
proof -
  let ?q = "JStr body"
  obtain r t3 where g:
    "twilioo_generate_response e ?q (combined_description rows) = (r, t3)"
    by (cases "twilioo_generate_response e ?q (combined_description rows)")
  have t3: "t3 = [Chat (twilioo_generate_request e ?q (combined_description rows))]"
    using twilioo_generate_response_events [of e ?q "combined_description rows"] g by simp
  show ?thesis
    using assms(1,2,3) twilioo_classify_query_Inr [OF assms(4)] g t3
      twilioo_fetch_room_details_ok [OF assms(5) assms(6) assms(7)]
      combined_description_not_empty [of rows]
    by (cases r) (simp_all add: twilio_webhook_def opt_json_def Let_def)
qed

lemma twilio_webhook_info:
  assumes "truthy_str (form_get form ''From'')" "form_get form ''Body'' = Some body" "body \<noteq> []"
    and "fst (twilioo_classify_query e (JStr body)) = Inr ''2''"
  shows "twilio_webhook e db form =
           (case fst (twilioo_generate_response e (JStr body) twilioo_HOTEL_INFO) of
              Inl ex \<Rightarrow> Inl ex
            | Inr response_text \<Rightarrow>
                Inr (Response (Twiml response_text) 200 [(''Content-Type'', ''application/xml'')]),
            db,
            [Chat (twilioo_classify_request e (JStr body)),
             Chat (twilioo_generate_request e (JStr body) twilioo_HOTEL_INFO)])"
proof -
  let ?q = "JStr body"
  obtain r t3 where g: "twilioo_generate_response e ?q twilioo_HOTEL_INFO = (r, t3)"
    by (cases "twilioo_generate_response e ?q twilioo_HOTEL_INFO")
  have t3: "t3 = [Chat (twilioo_generate_request e ?q twilioo_HOTEL_INFO)]"
    using twilioo_generate_response_events [of e ?q twilioo_HOTEL_INFO] g by simp
  show ?thesis
    using assms(1,2,3) twilioo_classify_query_Inr [OF assms(4)] g t3
    by (cases r) (simp_all add: twilio_webhook_def opt_json_def Let_def)
qed

lemma twilio_webhook_unclassified:
  assumes "truthy_str (form_get form ''From'')" "form_get form ''Body'' = Some body" "body \<noteq> []"
    and "fst (twilioo_classify_query e (JStr body)) = Inr c" "c \<noteq> ''1''" "c \<noteq> ''2''"
  shows "twilio_webhook e db form =
           (Inr (Response (Twiml ''Unable to classify your query.'') 200
                   [(''Content-Type'', ''application/xml'')]),
            db,
            [Chat (twilioo_classify_request e (JStr body))])"
  using assms(1,2,3,5,6) twilioo_classify_query_Inr [OF assms(4)]
  by (simp add: twilio_webhook_def opt_json_def Let_def)


lemma projections_startup [simp]:
  "chat_calls startup_events = []" "chat_calls app_page = []"
  "st_calls startup_events = []" "store_events app_page = []"
  "statements app_page = []"
  "statements startup_events = [CREATE_TABLE_IF_NOT_EXISTS_room_data, SELECT_COUNT_FROM_room_data]"
  by (simp_all add: startup_events_def app_page_def)

lemma demo_app_classify:
  "strip answer = c \<Longrightarrow> fst (app_classify_query (demo_env answer) query) = Some c"
  by (simp add: app_classify_query_def demo_env_def app_classify_request_def)

lemma demo_twilioo_classify:
  "strip answer = c \<Longrightarrow> fst (twilioo_classify_query (demo_env answer) query) = Inr c"
  by (simp add: twilioo_classify_query_def demo_env_def twilioo_classify_request_def)

lemma strip_demo:
  "strip '' 1 '' = ''1''" "strip (''2'' @ NL) = ''2''" "strip ''3'' = ''3''"
  "strip ''I cannot say'' = ''I cannot say''"
  by (simp_all add: strip_def whitespace_def NL_def)

lemma demo_request:
  "dict_get [(''query'', JStr q)] ''query'' (JStr '''') = JStr q"
  "form_get [(''From'', p), (''Body'', b)] ''From'' = Some p"
  "form_get [(''From'', p), (''Body'', b)] ''Body'' = Some b"
  by (simp_all add: dict_get_def form_get_def)

lemma demo_store:
  "connect_error (demo_db rows) = None" "room_data (demo_db rows) = Some rows"
  "truthy_str (GROQ_API_KEY (demo_env answer))"
  by (simp_all add: demo_db_def demo_env_def)

lemma execute_select_unchanged:
  "snd (execute SELECT_title_description_FROM_room_data db) = db"
  "snd (execute SELECT_COUNT_FROM_room_data db) = db"
  by (simp_all split: option.splits)

lemma app_fetch_room_details_unchanged:
  "app_fetch_room_details db = (room_details, db1, t) \<Longrightarrow> db1 = db"
  by (auto simp: app_fetch_room_details_def app_connect_to_db_def
      split: option.splits sum.splits)

lemma twilioo_fetch_room_details_unchanged:
  "twilioo_fetch_room_details db = (r, db1, t) \<Longrightarrow> db1 = db"
  by (auto simp: twilioo_fetch_room_details_def split: option.splits sum.splits)

lemma fetch_room_details_statements:
  "set (statements (snd (snd (app_fetch_room_details db))))
     \<subseteq> {SELECT_title_description_FROM_room_data}"
  "set (statements (snd (snd (twilioo_fetch_room_details db))))
     \<subseteq> {SELECT_title_description_FROM_room_data}"
  by (auto simp: app_fetch_room_details_def app_connect_to_db_def twilioo_fetch_room_details_def
      split: option.splits sum.splits)

lemma app_submit_unchanged: "fst (app_submit e db query) = db"
  by (auto simp: app_submit_def split: prod.splits dest: app_fetch_room_details_unchanged)

lemma handle_query_unchanged: "fst (snd (handle_query e db data)) = db"
  by (auto simp: handle_query_def Let_def split: json.splits prod.splits sum.splits
      dest: twilioo_fetch_room_details_unchanged)

lemma twilio_webhook_unchanged: "fst (snd (twilio_webhook e db form)) = db"
  by (auto simp: twilio_webhook_def Let_def split: prod.splits sum.splits
      dest: twilioo_fetch_room_details_unchanged)

lemma app_init_database_records:
  "records (fst (snd (app_init_database db))) = records db"
  "connect_error (fst (snd (app_init_database db))) = connect_error db"
  by (simp_all add: app_init_database_def records_def split: option.splits)

lemma app_main_records:
  "records (fst (app_main e db query clicked)) = records db"
  "connect_error (fst (app_main e db query clicked)) = connect_error db"
proof -
  obtain r db1 t0 where i: "app_init_database db = (r, db1, t0)"
    by (cases "app_init_database db")
  have db1: "records db1 = records db" "connect_error db1 = connect_error db"
    using app_init_database_records [of db] i by simp_all
  obtain db2 t where s: "app_submit e db1 query = (db2, t)"
    by (cases "app_submit e db1 query")
  have db2: "db2 = db1"
    using app_submit_unchanged [of e db1 query] s by simp
  show "records (fst (app_main e db query clicked)) = records db"
    using i s db1 db2 by (simp add: app_main_def Let_def split: sum.splits)
  show "connect_error (fst (app_main e db query clicked)) = connect_error db"
    using i s db1 db2 by (simp add: app_main_def Let_def split: sum.splits)
qed

lemma app_main_table_exists:
  "room_data db \<noteq> None \<Longrightarrow> fst (app_main e db query clicked) = db"
proof -
  assume a: "room_data db \<noteq> None"
  have i: "fst (snd (app_init_database db)) = db"
    using a by (auto simp: app_init_database_def split: option.splits)
  obtain r t0 where i': "app_init_database db = (r, db, t0)"
    using i by (cases "app_init_database db") simp
  obtain db2 t where s: "app_submit e db query = (db2, t)"
    by (cases "app_submit e db query")
  have db2: "db2 = db"
    using app_submit_unchanged [of e db query] s by simp
  show ?thesis
    using i' s db2 by (simp add: app_main_def Let_def split: sum.splits)
qed

lemma store_events_startup [simp]: "store_events startup_events = startup_events"
  by (simp add: startup_events_def)

lemma demo_generate:
  "fst (app_generate_response (demo_env answer) query context) = ''Welcome to Thira Beach Home.''"
  "fst (twilioo_generate_response (demo_env answer) q context) = Inr ''Welcome to Thira Beach Home.''"
  by (simp_all add: app_generate_response_def twilioo_generate_response_def demo_env_def
      app_generate_request_def twilioo_generate_request_def)

lemma handle_send_email_rejects:
  "\<not> truthy (dict_get d ''email'' JNull) \<Longrightarrow>
   handle_send_email e (JObj d) =
     (Inr (Response (Json (JObj [(''error'', JStr ''Email is required'')])) 400 []), [])"
  by (simp add: handle_send_email_def Let_def)

lemma send_email_events:
  "snd (send_email e to_email subject body) =
     [Post ''https://api.postmarkapp.com/email''
        [(''Accept'', JStr ''application/json''),
         (''Content-Type'', JStr ''application/json''),
         (''X-Postmark-Server-Token'', opt_json (POSTMARK_API_KEY e))]
        (JObj [(''From'', opt_json (SENDER_EMAIL e)),
               (''To'', to_email),
               (''Subject'', subject),
               (''TextBody'', body)])]"
  by (simp add: send_email_def Let_def split: sum.splits prod.splits)

lemma handle_send_email_sends:
  "truthy (dict_get d ''email'' JNull) \<Longrightarrow>
   handle_send_email e (JObj d) =
     (case fst (send_email e (dict_get d ''email'' JNull)
                  (dict_get d ''subject'' (JStr ''Room Availability at Thira Beach Home''))
                  (dict_get d ''body'' (JStr ''Here are the details of the available rooms.''))) of
        Inl ex \<Rightarrow> Inl ex
      | Inr result \<Rightarrow> Inr (Response (Json result) 200 []),
      snd (send_email e (dict_get d ''email'' JNull)
             (dict_get d ''subject'' (JStr ''Room Availability at Thira Beach Home''))
             (dict_get d ''body'' (JStr ''Here are the details of the available rooms.''))))"
  by (simp add: handle_send_email_def Let_def split: sum.splits prod.splits)

lemma chat_calls_app_main_except [simp]: "chat_calls (app_main_except ex) = []"
  by (simp add: app_main_except_def)

lemma app_main_unavailable:
  "truthy_str (GROQ_API_KEY e) \<Longrightarrow> connect_error db = Some m \<Longrightarrow>
   app_main e db query clicked =
     (db, [St (St_set_page_config ''Thira Beach Home'' [CHR 0xF0, CHR 0x9F, CHR 0x8F, CHR 0xA8]),
           Connect ''rooms.db''] @
          app_main_except (UnboundLocalError
            ''cannot access local variable 'conn' where it is not associated with a value''))"
  by (simp add: app_main_def app_init_app_def app_init_database_def)

lemma twilioo_fetch_room_details_unavailable:
  "connect_error db = Some m \<Longrightarrow>
   twilioo_fetch_room_details db = (Inl (SqliteError m), db, [Connect ''rooms.db''])"
  by (simp add: twilioo_fetch_room_details_def)

lemma handle_query_unavailable:
  assumes "truthy (dict_get d ''query'' (JStr ''''))"
    and "fst (twilioo_classify_query e (dict_get d ''query'' (JStr ''''))) = Inr ''1''"
    and "connect_error db = Some m"
  shows "handle_query e db (JObj d) =
           (Inl (SqliteError m), db,
            [Chat (twilioo_classify_request e (dict_get d ''query'' (JStr ''''))),
             Connect ''rooms.db''])"
  using assms(1) twilioo_classify_query_Inr [OF assms(2)]
    twilioo_fetch_room_details_unavailable [OF assms(3)]
  by (simp add: handle_query_def Let_def)

lemma twilio_webhook_unavailable:
  assumes "truthy_str (form_get form ''From'')" "form_get form ''Body'' = Some body" "body \<noteq> []"
    and "fst (twilioo_classify_query e (JStr body)) = Inr ''1''"
    and "connect_error db = Some m"
  shows "twilio_webhook e db form =
           (Inl (SqliteError m), db,
            [Chat (twilioo_classify_request e (JStr body)), Connect ''rooms.db''])"
  using assms(1,2,3) twilioo_classify_query_Inr [OF assms(4)]
    twilioo_fetch_room_details_unavailable [OF assms(5)]
  by (simp add: twilio_webhook_def opt_json_def Let_def)

lemma app_main_rooms:
  assumes "truthy_str (GROQ_API_KEY e)" "query \<noteq> []"
    and "fst (app_classify_query e query) = Some ''1''"
    and "room_data db = Some rows" "decodable rows"
  shows "chat_calls (snd (app_main e db query True)) =
           (if connect_error db = None
            then [app_classify_request query,
                  app_generate_request query (combined_description rows)]
            else [])"
proof (cases "connect_error db")
  case None
  have db: "db\<lparr>room_data := Some (records db)\<rparr> = db"
    using assms(4) by (simp add: records_def)
  show ?thesis
    using None assms app_submit_rooms [of query e db rows]
    by (simp add: app_main_started db)
next
  case (Some m)
  then show ?thesis
    using assms(1) by (simp add: app_main_unavailable)
qed

lemma handle_query_rooms_calls:
  assumes "truthy (dict_get d ''query'' (JStr ''''))"
    and "fst (twilioo_classify_query e (dict_get d ''query'' (JStr ''''))) = Inr ''1''"
    and "room_data db = Some rows" "decodable rows"
  shows "chat_calls (snd (snd (handle_query e db (JObj d)))) =
           (if connect_error db = None
            then [twilioo_classify_request e (dict_get d ''query'' (JStr '''')),
                  twilioo_generate_request e (dict_get d ''query'' (JStr ''''))
                    (combined_description rows)]
            else [twilioo_classify_request e (dict_get d ''query'' (JStr ''''))])"
proof (cases "connect_error db")
  case None
  then show ?thesis
    using assms handle_query_rooms [of d e db rows] by simp
next
  case (Some m)
  then show ?thesis
    using assms handle_query_unavailable [of d e db m] by simp
qed

lemma twilio_webhook_rooms_calls:
  assumes "truthy_str (form_get form ''From'')" "form_get form ''Body'' = Some body" "body \<noteq> []"
    and "fst (twilioo_classify_query e (JStr body)) = Inr ''1''"
    and "room_data db = Some rows" "decodable rows"
  shows "chat_calls (snd (snd (twilio_webhook e db form))) =
           (if connect_error db = None
            then [twilioo_classify_request e (JStr body),
                  twilioo_generate_request e (JStr body) (combined_description rows)]
            else [twilioo_classify_request e (JStr body)])"
proof (cases "connect_error db")
  case None
  then show ?thesis
    using assms twilio_webhook_rooms [of form body e db rows] by simp
next
  case (Some m)
  then show ?thesis
    using assms twilio_webhook_unavailable [of form body e db m] by simp
qed

lemma app_submit_fetch_error:
  assumes "query \<noteq> []" "fst (app_classify_query e query) = Some ''1''"
    and "connect_error db = None" "room_data db = Some rows" "convert_rows rows = Inl m"
  shows "chat_calls (snd (app_submit e db query)) =
           [app_classify_request query,
            app_generate_request query (''Error fetching room details: '' @ m)]"
proof -
  have f: "app_fetch_room_details db =
             (''Error fetching room details: '' @ m, db,
              [Connect ''rooms.db'', Execute SELECT_title_description_FROM_room_data, Close])"
    using assms(3,4,5) by (simp add: app_fetch_room_details_def app_connect_to_db_def)
  obtain response t3 where g:
    "app_generate_response e query (''Error fetching room details: '' @ m) = (response, t3)"
    by (cases "app_generate_response e query (''Error fetching room details: '' @ m)")
  have t3: "t3 = [Chat (app_generate_request query (''Error fetching room details: '' @ m))]"
    using app_generate_response_events [of e query "''Error fetching room details: '' @ m"] g
    by simp
  show ?thesis
    using assms(1) app_classify_query_Some [OF assms(2)] f g t3
    by (simp add: app_submit_def)
qed

lemma twilioo_fetch_room_details_fetch_error:
  "connect_error db = None \<Longrightarrow> room_data db = Some rows \<Longrightarrow> convert_rows rows = Inl m \<Longrightarrow>
   twilioo_fetch_room_details db =
     (Inl (SqliteError m), db,
      [Connect ''rooms.db'', Execute SELECT_title_description_FROM_room_data])"
  by (simp add: twilioo_fetch_room_details_def)

lemma handle_query_fetch_error:
  assumes "truthy (dict_get d ''query'' (JStr ''''))"
    and "fst (twilioo_classify_query e (dict_get d ''query'' (JStr ''''))) = Inr ''1''"
    and "connect_error db = None" "room_data db = Some rows" "convert_rows rows = Inl m"
  shows "handle_query e db (JObj d) =
           (Inl (SqliteError m), db,
            [Chat (twilioo_classify_request e (dict_get d ''query'' (JStr ''''))),
             Connect ''rooms.db'', Execute SELECT_title_description_FROM_room_data])"
  using assms(1) twilioo_classify_query_Inr [OF assms(2)]
    twilioo_fetch_room_details_fetch_error [OF assms(3) assms(4) assms(5)]
  by (simp add: handle_query_def Let_def)

lemma twilio_webhook_fetch_error:
  assumes "truthy_str (form_get form ''From'')" "form_get form ''Body'' = Some body" "body \<noteq> []"
    and "fst (twilioo_classify_query e (JStr body)) = Inr ''1''"
    and "connect_error db = None" "room_data db = Some rows" "convert_rows rows = Inl m"
  shows "twilio_webhook e db form =
           (Inl (SqliteError m), db,
            [Chat (twilioo_classify_request e (JStr body)),
             Connect ''rooms.db'', Execute SELECT_title_description_FROM_room_data])"
  using assms(1,2,3) twilioo_classify_query_Inr [OF assms(4)]
    twilioo_fetch_room_details_fetch_error [OF assms(5) assms(6) assms(7)]
  by (simp add: twilio_webhook_def opt_json_def Let_def)

lemma demo_bad_rows_fetch:
  "convert_rows demo_bad_rows = Inl (decode_error ''title'' [CHR 0xFF])"
  "demo_bad_rows \<noteq> []" "\<not> decodable demo_bad_rows"
  by (simp_all add: demo_bad_rows_def)

section \<open>The claims\<close>

text \<open>
  C1, as the code has it. When the classifier's result is \<^verbatim>\<open>"1"\<close>, the room table is not
  empty and every text cell of it is valid UTF-8, the context handed to the response
  generator is the rows of \<^verbatim>\<open>room_data\<close>, each formatted
  \<^verbatim>\<open>Room: <title>\nDescription: <description>\<close> (a \<^verbatim>\<open>NULL\<close> column reads \<^verbatim>\<open>None\<close>, a BLOB as
  Python prints bytes), joined by a blank line, in table order. This holds on the browser
  UI (\<^verbatim>\<open>main\<close>), on \<^verbatim>\<open>POST /query\<close> and on \<^verbatim>\<open>POST /twilio_webhook\<close>: when the store opens,
  the chat-completion calls of the request are the classification and then one generation
  whose context is that text; when it does not open, the generator is not called at all.
\<close>

theorem room_context_passed_to_generator:
  assumes "room_data db = Some rows" "rows \<noteq> []" "decodable rows"
  shows "(truthy_str (GROQ_API_KEY e) \<and> query \<noteq> [] \<and>
          fst (app_classify_query e query) = Some ''1'' \<longrightarrow>
            chat_calls (snd (app_main e db query True)) =
              (if connect_error db = None
               then [app_classify_request query,
                     app_generate_request query (spec_room_context rows)]
               else []))
       \<and> (truthy (dict_get d ''query'' (JStr '''')) \<and>
          fst (twilioo_classify_query e (dict_get d ''query'' (JStr ''''))) = Inr ''1'' \<longrightarrow>
            chat_calls (snd (snd (handle_query e db (JObj d)))) =
              (if connect_error db = None
               then [twilioo_classify_request e (dict_get d ''query'' (JStr '''')),
                     twilioo_generate_request e (dict_get d ''query'' (JStr ''''))
                       (spec_room_context rows)]
               else [twilioo_classify_request e (dict_get d ''query'' (JStr ''''))]))
       \<and> (truthy_str (form_get form ''From'') \<and> form_get form ''Body'' = Some body \<and> body \<noteq> [] \<and>
          fst (twilioo_classify_query e (JStr body)) = Inr ''1'' \<longrightarrow>
            chat_calls (snd (snd (twilio_webhook e db form))) =
              (if connect_error db = None
               then [twilioo_classify_request e (JStr body),
                     twilioo_generate_request e (JStr body) (spec_room_context rows)]
               else [twilioo_classify_request e (JStr body)]))"
  using assms app_main_rooms [of e query db rows] handle_query_rooms_calls [of d e db rows]
    twilio_webhook_rooms_calls [of form body e db rows]
  by (simp add: combined_description_nonempty)

theorem room_context_passed_to_generator_witness:
  "connect_error (demo_db demo_rows) = None
   \<and> room_data (demo_db demo_rows) = Some demo_rows
   \<and> demo_rows \<noteq> []
   \<and> decodable demo_rows
   \<and> truthy_str (GROQ_API_KEY (demo_env '' 1 ''))
   \<and> fst (app_classify_query (demo_env '' 1 '') ''Can I book a room?'') = Some ''1''
   \<and> truthy (dict_get [(''query'', JStr ''Can I book a room?'')] ''query'' (JStr ''''))
   \<and> fst (twilioo_classify_query (demo_env '' 1 '') (JStr ''Can I book a room?'')) = Inr ''1''
   \<and> truthy_str (form_get [(''From'', ''whatsapp:+910000000000''), (''Body'', ''Can I book a room?'')]
                  ''From'')
   \<and> form_get [(''From'', ''whatsapp:+910000000000''), (''Body'', ''Can I book a room?'')] ''Body''
       = Some ''Can I book a room?''
   \<and> spec_room_context demo_rows =
       ''Room: Ocean View'' @ NL @ ''Description: Sea-facing room'' @ NL @ NL @
       ''Room: Garden'' @ NL @ ''Description: None''
   \<and> chat_calls (snd (app_main (demo_env '' 1 '') (demo_db demo_rows) ''Can I book a room?'' True)) =
       [app_classify_request ''Can I book a room?'',
        app_generate_request ''Can I book a room?'' (spec_room_context demo_rows)]
   \<and> chat_calls (snd (snd (handle_query (demo_env '' 1 '') (demo_db demo_rows)
                              (JObj [(''query'', JStr ''Can I book a room?'')])))) =
       [twilioo_classify_request (demo_env '' 1 '') (JStr ''Can I book a room?''),
        twilioo_generate_request (demo_env '' 1 '') (JStr ''Can I book a room?'')
          (spec_room_context demo_rows)]
   \<and> chat_calls (snd (snd (twilio_webhook (demo_env '' 1 '') (demo_db demo_rows)
                              [(''From'', ''whatsapp:+910000000000''),
                               (''Body'', ''Can I book a room?'')]))) =
       [twilioo_classify_request (demo_env '' 1 '') (JStr ''Can I book a room?''),
        twilioo_generate_request (demo_env '' 1 '') (JStr ''Can I book a room?'')
          (spec_room_context demo_rows)]"
proof -
  have db: "connect_error (demo_db demo_rows) = None"
    "room_data (demo_db demo_rows) = Some demo_rows" "demo_rows \<noteq> []"
    by (simp_all add: demo_db_def demo_rows_def)
  have dec: "decodable demo_rows"
    by (simp add: demo_rows_def)
  have key: "truthy_str (GROQ_API_KEY (demo_env '' 1 ''))"
    by (simp add: demo_env_def)
  have c1: "fst (app_classify_query (demo_env '' 1 '') ''Can I book a room?'') = Some ''1''"
    by (rule demo_app_classify) (rule strip_demo)
  have c2: "fst (twilioo_classify_query (demo_env '' 1 '') (JStr ''Can I book a room?'')) = Inr ''1''"
    by (rule demo_twilioo_classify) (rule strip_demo)
  have q: "dict_get [(''query'', JStr ''Can I book a room?'')] ''query'' (JStr '''')
           = JStr ''Can I book a room?''"
    by (simp add: dict_get_def)
  have f: "form_get [(''From'', ''whatsapp:+910000000000''), (''Body'', ''Can I book a room?'')]
             ''From'' = Some ''whatsapp:+910000000000''"
    "form_get [(''From'', ''whatsapp:+910000000000''), (''Body'', ''Can I book a room?'')] ''Body''
       = Some ''Can I book a room?''"
    by (simp_all add: form_get_def)
  have s: "spec_room_context demo_rows =
       ''Room: Ocean View'' @ NL @ ''Description: Sea-facing room'' @ NL @ NL @
       ''Room: Garden'' @ NL @ ''Description: None''"
    by (simp add: demo_rows_def)
  show ?thesis
    using room_context_passed_to_generator [OF db(2) db(3) dec,
        of "demo_env '' 1 ''" "''Can I book a room?''" "[(''query'', JStr ''Can I book a room?'')]"
           "[(''From'', ''whatsapp:+910000000000''), (''Body'', ''Can I book a room?'')]"
           "''Can I book a room?''"]
      db dec key c1 c2 q f s
    by simp
qed

text \<open>
  C1 as stated fails on a non-empty table with a text cell that is not valid UTF-8 (here
  the single byte 0xFF as a title): fetching the rows raises. The browser UI catches the
  error and hands the generator the context \<^verbatim>\<open>Error fetching room details: ...\<close>, which is not
  the formatted rows; \<^verbatim>\<open>POST /query\<close> and \<^verbatim>\<open>POST /twilio_webhook\<close> raise after the
  classification and never call the generator.
\<close>

theorem room_context_undecodable_cell:
  "room_data (demo_db demo_bad_rows) = Some demo_bad_rows
   \<and> demo_bad_rows \<noteq> []
   \<and> fst (app_classify_query (demo_env '' 1 '') ''Can I book a room?'') = Some ''1''
   \<and> fst (twilioo_classify_query (demo_env '' 1 '') (JStr ''Can I book a room?'')) = Inr ''1''
   \<and> chat_calls (snd (app_main (demo_env '' 1 '') (demo_db demo_bad_rows)
                        ''Can I book a room?'' True)) =
       [app_classify_request ''Can I book a room?'',
        app_generate_request ''Can I book a room?''
          (''Error fetching room details: '' @ decode_error ''title'' [CHR 0xFF])]
   \<and> chat_calls (snd (app_main (demo_env '' 1 '') (demo_db demo_bad_rows)
                        ''Can I book a room?'' True)) \<noteq>
       [app_classify_request ''Can I book a room?'',
        app_generate_request ''Can I book a room?'' (spec_room_context demo_bad_rows)]
   \<and> handle_query (demo_env '' 1 '') (demo_db demo_bad_rows)
        (JObj [(''query'', JStr ''Can I book a room?'')]) =
       (Inl (SqliteError (decode_error ''title'' [CHR 0xFF])),
        demo_db demo_bad_rows,
        [Chat (twilioo_classify_request (demo_env '' 1 '') (JStr ''Can I book a room?'')),
         Connect ''rooms.db'', Execute SELECT_title_description_FROM_room_data])
   \<and> twilio_webhook (demo_env '' 1 '') (demo_db demo_bad_rows)
        [(''From'', ''whatsapp:+910000000000''), (''Body'', ''Can I book a room?'')] =
       (Inl (SqliteError (decode_error ''title'' [CHR 0xFF])),
        demo_db demo_bad_rows,
        [Chat (twilioo_classify_request (demo_env '' 1 '') (JStr ''Can I book a room?'')),
         Connect ''rooms.db'', Execute SELECT_title_description_FROM_room_data])"
proof -
  have c1: "fst (app_classify_query (demo_env '' 1 '') ''Can I book a room?'') = Some ''1''"
    by (rule demo_app_classify) (rule strip_demo)
  have c2: "fst (twilioo_classify_query (demo_env '' 1 '') (JStr ''Can I book a room?'')) = Inr ''1''"
    by (rule demo_twilioo_classify) (rule strip_demo)
  have app: "chat_calls (snd (app_main (demo_env '' 1 '') (demo_db demo_bad_rows)
                        ''Can I book a room?'' True)) =
       [app_classify_request ''Can I book a room?'',
        app_generate_request ''Can I book a room?''
          (''Error fetching room details: '' @ decode_error ''title'' [CHR 0xFF])]"
  proof -
    have upd: "(demo_db demo_bad_rows)\<lparr>room_data := Some (records (demo_db demo_bad_rows))\<rparr>
               = demo_db demo_bad_rows"
      by (simp add: demo_db_def records_def)
    obtain db2 t where s:
      "app_submit (demo_env '' 1 '') (demo_db demo_bad_rows) ''Can I book a room?'' = (db2, t)"
      by (cases "app_submit (demo_env '' 1 '') (demo_db demo_bad_rows) ''Can I book a room?''")
    have t: "chat_calls t =
       [app_classify_request ''Can I book a room?'',
        app_generate_request ''Can I book a room?''
          (''Error fetching room details: '' @ decode_error ''title'' [CHR 0xFF])]"
      using app_submit_fetch_error [OF _ c1 demo_store(1) demo_store(2) demo_bad_rows_fetch(1)] s
      by simp
    show ?thesis
      using s t by (simp add: app_main_started demo_store upd)
  qed
  have differs: "app_generate_request ''Can I book a room?''
          (''Error fetching room details: '' @ decode_error ''title'' [CHR 0xFF]) \<noteq>
        app_generate_request ''Can I book a room?'' (spec_room_context demo_bad_rows)"
    by (simp add: app_generate_request_def demo_bad_rows_def)
  have query: "handle_query (demo_env '' 1 '') (demo_db demo_bad_rows)
        (JObj [(''query'', JStr ''Can I book a room?'')]) =
       (Inl (SqliteError (decode_error ''title'' [CHR 0xFF])),
        demo_db demo_bad_rows,
        [Chat (twilioo_classify_request (demo_env '' 1 '') (JStr ''Can I book a room?'')),
         Connect ''rooms.db'', Execute SELECT_title_description_FROM_room_data])"
    using handle_query_fetch_error [of "[(''query'', JStr ''Can I book a room?'')]"
        "demo_env '' 1 ''" "demo_db demo_bad_rows" demo_bad_rows
        "decode_error ''title'' [CHR 0xFF]"] c2
    by (simp add: demo_request demo_store demo_bad_rows_fetch)
  have hook: "twilio_webhook (demo_env '' 1 '') (demo_db demo_bad_rows)
        [(''From'', ''whatsapp:+910000000000''), (''Body'', ''Can I book a room?'')] =
       (Inl (SqliteError (decode_error ''title'' [CHR 0xFF])),
        demo_db demo_bad_rows,
        [Chat (twilioo_classify_request (demo_env '' 1 '') (JStr ''Can I book a room?'')),
         Connect ''rooms.db'', Execute SELECT_title_description_FROM_room_data])"
    using twilio_webhook_fetch_error
        [of "[(''From'', ''whatsapp:+910000000000''), (''Body'', ''Can I book a room?'')]"
        "''Can I book a room?''" "demo_env '' 1 ''" "demo_db demo_bad_rows" demo_bad_rows
        "decode_error ''title'' [CHR 0xFF]"] c2
    by (simp add: demo_request demo_store demo_bad_rows_fetch)
  show ?thesis
    using c1 c2 app differs query hook
    by (simp add: demo_store demo_bad_rows_fetch)
qed

text \<open>
  C2. When the classifier's result is \<^verbatim>\<open>"2"\<close>, the context handed to the response generator
  is the module's hard-coded constant \<^verbatim>\<open>HOTEL_INFO\<close>, unchanged: the constant of \<^verbatim>\<open>app.py\<close>
  on the browser UI, the constant of \<^verbatim>\<open>twilioo.py\<close> on \<^verbatim>\<open>POST /query\<close> and on
  \<^verbatim>\<open>POST /twilio_webhook\<close>.
\<close>

theorem hotel_info_passed_to_generator:
  "(truthy_str (GROQ_API_KEY e) \<and> connect_error db = None \<and> query \<noteq> [] \<and>
    fst (app_classify_query e query) = Some ''2'' \<longrightarrow>
      chat_calls (snd (app_main e db query True)) =
        [app_classify_request query, app_generate_request query app_HOTEL_INFO])
   \<and> (truthy (dict_get d ''query'' (JStr '''')) \<and>
      fst (twilioo_classify_query e (dict_get d ''query'' (JStr ''''))) = Inr ''2'' \<longrightarrow>
        chat_calls (snd (snd (handle_query e db (JObj d)))) =
          [twilioo_classify_request e (dict_get d ''query'' (JStr '''')),
           twilioo_generate_request e (dict_get d ''query'' (JStr '''')) twilioo_HOTEL_INFO])
   \<and> (truthy_str (form_get form ''From'') \<and> form_get form ''Body'' = Some body \<and> body \<noteq> [] \<and>
      fst (twilioo_classify_query e (JStr body)) = Inr ''2'' \<longrightarrow>
        chat_calls (snd (snd (twilio_webhook e db form))) =
          [twilioo_classify_request e (JStr body),
           twilioo_generate_request e (JStr body) twilioo_HOTEL_INFO])"
proof (intro conjI impI)
  assume a: "truthy_str (GROQ_API_KEY e) \<and> connect_error db = None \<and> query \<noteq> [] \<and>
             fst (app_classify_query e query) = Some ''2''"
  show "chat_calls (snd (app_main e db query True)) =
          [app_classify_request query, app_generate_request query app_HOTEL_INFO]"
    using a app_submit_info [of query e "db\<lparr>room_data := Some (records db)\<rparr>"]
    by (simp add: app_main_started)
next
  assume a: "truthy (dict_get d ''query'' (JStr '''')) \<and>
             fst (twilioo_classify_query e (dict_get d ''query'' (JStr ''''))) = Inr ''2''"
  show "chat_calls (snd (snd (handle_query e db (JObj d)))) =
          [twilioo_classify_request e (dict_get d ''query'' (JStr '''')),
           twilioo_generate_request e (dict_get d ''query'' (JStr '''')) twilioo_HOTEL_INFO]"
    using a handle_query_info [of d e db] by simp
next
  assume a: "truthy_str (form_get form ''From'') \<and> form_get form ''Body'' = Some body \<and>
             body \<noteq> [] \<and> fst (twilioo_classify_query e (JStr body)) = Inr ''2''"
  show "chat_calls (snd (snd (twilio_webhook e db form))) =
          [twilioo_classify_request e (JStr body),
           twilioo_generate_request e (JStr body) twilioo_HOTEL_INFO]"
    using a twilio_webhook_info [of form body e db] by simp
qed

theorem hotel_info_passed_to_generator_witness:
  "fst (app_classify_query (demo_env (''2'' @ NL)) ''Is there air conditioning?'') = Some ''2''
   \<and> fst (twilioo_classify_query (demo_env (''2'' @ NL)) (JStr ''Is there air conditioning?''))
       = Inr ''2''
   \<and> chat_calls (snd (app_main (demo_env (''2'' @ NL)) (demo_db [])
                        ''Is there air conditioning?'' True)) =
       [app_classify_request ''Is there air conditioning?'',
        app_generate_request ''Is there air conditioning?'' app_HOTEL_INFO]
   \<and> chat_calls (snd (snd (handle_query (demo_env (''2'' @ NL)) (demo_db [])
                              (JObj [(''query'', JStr ''Is there air conditioning?'')])))) =
       [twilioo_classify_request (demo_env (''2'' @ NL)) (JStr ''Is there air conditioning?''),
        twilioo_generate_request (demo_env (''2'' @ NL)) (JStr ''Is there air conditioning?'')
          twilioo_HOTEL_INFO]
   \<and> chat_calls (snd (snd (twilio_webhook (demo_env (''2'' @ NL)) (demo_db [])
                              [(''From'', ''whatsapp:+910000000000''),
                               (''Body'', ''Is there air conditioning?'')]))) =
       [twilioo_classify_request (demo_env (''2'' @ NL)) (JStr ''Is there air conditioning?''),
        twilioo_generate_request (demo_env (''2'' @ NL)) (JStr ''Is there air conditioning?'')
          twilioo_HOTEL_INFO]"
proof -
  have c1: "fst (app_classify_query (demo_env (''2'' @ NL)) ''Is there air conditioning?'')
            = Some ''2''"
    by (rule demo_app_classify) (rule strip_demo)
  have c2: "fst (twilioo_classify_query (demo_env (''2'' @ NL))
                   (JStr ''Is there air conditioning?'')) = Inr ''2''"
    by (rule demo_twilioo_classify) (rule strip_demo)
  show ?thesis
    using hotel_info_passed_to_generator [of "demo_env (''2'' @ NL)" "demo_db []"
        "''Is there air conditioning?''" "[(''query'', JStr ''Is there air conditioning?'')]"
        "[(''From'', ''whatsapp:+910000000000''), (''Body'', ''Is there air conditioning?'')]"
        "''Is there air conditioning?''"]
      c1 c2
    by (simp add: demo_request demo_store)
qed

text \<open>
  C3. When the classifier's result is \<^verbatim>\<open>"1"\<close> and the room table has no rows, the context
  handed to the response generator is the literal \<^verbatim>\<open>No room details available.\<close>, on the
  browser UI, on \<^verbatim>\<open>POST /query\<close> and on \<^verbatim>\<open>POST /twilio_webhook\<close>; when the store does not
  open, the generator is not called at all.
\<close>

theorem empty_table_fallback_context:
  assumes "room_data db = Some []"
  shows "(truthy_str (GROQ_API_KEY e) \<and> query \<noteq> [] \<and>
          fst (app_classify_query e query) = Some ''1'' \<longrightarrow>
            chat_calls (snd (app_main e db query True)) =
              (if connect_error db = None
               then [app_classify_request query,
                     app_generate_request query ''No room details available.'']
               else []))
       \<and> (truthy (dict_get d ''query'' (JStr '''')) \<and>
          fst (twilioo_classify_query e (dict_get d ''query'' (JStr ''''))) = Inr ''1'' \<longrightarrow>
            chat_calls (snd (snd (handle_query e db (JObj d)))) =
              (if connect_error db = None
               then [twilioo_classify_request e (dict_get d ''query'' (JStr '''')),
                     twilioo_generate_request e (dict_get d ''query'' (JStr ''''))
                       ''No room details available.'']
               else [twilioo_classify_request e (dict_get d ''query'' (JStr ''''))]))
       \<and> (truthy_str (form_get form ''From'') \<and> form_get form ''Body'' = Some body \<and> body \<noteq> [] \<and>
          fst (twilioo_classify_query e (JStr body)) = Inr ''1'' \<longrightarrow>
            chat_calls (snd (snd (twilio_webhook e db form))) =
              (if connect_error db = None
               then [twilioo_classify_request e (JStr body),
                     twilioo_generate_request e (JStr body) ''No room details available.'']
               else [twilioo_classify_request e (JStr body)]))"
proof -
  have fallback: "combined_description [] = ''No room details available.''"
    by (simp add: combined_description_def)
  show ?thesis
    using assms app_main_rooms [of e query db "[]"] handle_query_rooms_calls [of d e db "[]"]
      twilio_webhook_rooms_calls [of form body e db "[]"]
    by (simp add: fallback)
qed

theorem empty_table_fallback_context_witness:
  "connect_error (demo_db []) = None
   \<and> room_data (demo_db []) = Some []
   \<and> fst (app_classify_query (demo_env '' 1 '') ''Any rooms free?'') = Some ''1''
   \<and> fst (twilioo_classify_query (demo_env '' 1 '') (JStr ''Any rooms free?'')) = Inr ''1''
   \<and> chat_calls (snd (app_main (demo_env '' 1 '') (demo_db []) ''Any rooms free?'' True)) =
       [app_classify_request ''Any rooms free?'',
        app_generate_request ''Any rooms free?'' ''No room details available.'']
   \<and> chat_calls (snd (snd (handle_query (demo_env '' 1 '') (demo_db [])
                              (JObj [(''query'', JStr ''Any rooms free?'')])))) =
       [twilioo_classify_request (demo_env '' 1 '') (JStr ''Any rooms free?''),
        twilioo_generate_request (demo_env '' 1 '') (JStr ''Any rooms free?'')
          ''No room details available.'']
   \<and> chat_calls (snd (snd (twilio_webhook (demo_env '' 1 '') (demo_db [])
                              [(''From'', ''whatsapp:+910000000000''),
                               (''Body'', ''Any rooms free?'')]))) =
       [twilioo_classify_request (demo_env '' 1 '') (JStr ''Any rooms free?''),
        twilioo_generate_request (demo_env '' 1 '') (JStr ''Any rooms free?'')
          ''No room details available.'']"
proof -
  have c1: "fst (app_classify_query (demo_env '' 1 '') ''Any rooms free?'') = Some ''1''"
    by (rule demo_app_classify) (rule strip_demo)
  have c2: "fst (twilioo_classify_query (demo_env '' 1 '') (JStr ''Any rooms free?'')) = Inr ''1''"
    by (rule demo_twilioo_classify) (rule strip_demo)
  show ?thesis
    using empty_table_fallback_context [OF demo_store(2),
        of "demo_env '' 1 ''" "''Any rooms free?''" "[(''query'', JStr ''Any rooms free?'')]"
        "[(''From'', ''whatsapp:+910000000000''), (''Body'', ''Any rooms free?'')]"
        "''Any rooms free?''"]
      c1 c2
    by (simp add: demo_request demo_store)
qed

text \<open>
  C4. When the classifier returns a string other than \<^verbatim>\<open>"1"\<close> and \<^verbatim>\<open>"2"\<close>, each surface
  answers with its error and the response generator is not called: the only chat-completion
  call is the classification. The browser UI shows \<^verbatim>\<open>st.error\<close> and no response;
  \<^verbatim>\<open>POST /query\<close> returns status 500 with the JSON body
  \<^verbatim>\<open>{"error": "Invalid query classification"}\<close>; \<^verbatim>\<open>POST /twilio_webhook\<close> replies with the
  fixed message \<^verbatim>\<open>Unable to classify your query.\<close>.
\<close>

theorem unrecognised_category_is_an_error:
  assumes "c \<noteq> ''1''" "c \<noteq> ''2''"
  shows "(truthy_str (GROQ_API_KEY e) \<and> connect_error db = None \<and> query \<noteq> [] \<and>
          fst (app_classify_query e query) = Some c \<longrightarrow>
            chat_calls (snd (app_main e db query True)) = [app_classify_request query]
            \<and> st_calls (snd (app_main e db query True)) =
                [St_set_page_config ''Thira Beach Home'' [CHR 0xF0, CHR 0x9F, CHR 0x8F, CHR 0xA8]]
                @ st_calls app_page @
                [St_spinner ''Processing your query...'',
                 St_error (if c = [] then ''Failed to classify your query. Please try again.''
                           else ''Invalid query classification. Please try again.'')])
       \<and> (truthy (dict_get d ''query'' (JStr '''')) \<and>
          fst (twilioo_classify_query e (dict_get d ''query'' (JStr ''''))) = Inr c \<longrightarrow>
            handle_query e db (JObj d) =
              (Inr (Response (Json (JObj [(''error'', JStr ''Invalid query classification'')]))
                      500 []),
               db,
               [Chat (twilioo_classify_request e (dict_get d ''query'' (JStr '''')))]))
       \<and> (truthy_str (form_get form ''From'') \<and> form_get form ''Body'' = Some body \<and> body \<noteq> [] \<and>
          fst (twilioo_classify_query e (JStr body)) = Inr c \<longrightarrow>
            twilio_webhook e db form =
              (Inr (Response (Twiml ''Unable to classify your query.'') 200
                      [(''Content-Type'', ''application/xml'')]),
               db,
               [Chat (twilioo_classify_request e (JStr body))]))"
proof -
  have app: "chat_calls (snd (app_main e db query True)) = [app_classify_request query]
            \<and> st_calls (snd (app_main e db query True)) =
                [St_set_page_config ''Thira Beach Home'' [CHR 0xF0, CHR 0x9F, CHR 0x8F, CHR 0xA8]]
                @ st_calls app_page @
                [St_spinner ''Processing your query...'',
                 St_error (if c = [] then ''Failed to classify your query. Please try again.''
                           else ''Invalid query classification. Please try again.'')]"
    if "truthy_str (GROQ_API_KEY e) \<and> connect_error db = None \<and> query \<noteq> [] \<and>
        fst (app_classify_query e query) = Some c"
    using that assms
      app_submit_unclassified [of query e c "db\<lparr>room_data := Some (records db)\<rparr>"]
    by (simp add: app_main_started)
  have query: "handle_query e db (JObj d) =
              (Inr (Response (Json (JObj [(''error'', JStr ''Invalid query classification'')]))
                      500 []),
               db,
               [Chat (twilioo_classify_request e (dict_get d ''query'' (JStr '''')))])"
    if "truthy (dict_get d ''query'' (JStr '''')) \<and>
        fst (twilioo_classify_query e (dict_get d ''query'' (JStr ''''))) = Inr c"
    using that assms handle_query_unclassified [of d e c db] by simp
  have hook: "twilio_webhook e db form =
              (Inr (Response (Twiml ''Unable to classify your query.'') 200
                      [(''Content-Type'', ''application/xml'')]),
               db,
               [Chat (twilioo_classify_request e (JStr body))])"
    if "truthy_str (form_get form ''From'') \<and> form_get form ''Body'' = Some body \<and>
        body \<noteq> [] \<and> fst (twilioo_classify_query e (JStr body)) = Inr c"
    using that assms twilio_webhook_unclassified [of form body e c db] by simp
  from app query hook show ?thesis by blast
qed

theorem unrecognised_category_is_an_error_witness:
  "fst (app_classify_query (demo_env ''3'') ''What is the weather?'') = Some ''3''
   \<and> fst (twilioo_classify_query (demo_env ''3'') (JStr ''What is the weather?'')) = Inr ''3''
   \<and> chat_calls (snd (app_main (demo_env ''3'') (demo_db demo_rows) ''What is the weather?'' True))
       = [app_classify_request ''What is the weather?'']
   \<and> st_calls (snd (app_main (demo_env ''3'') (demo_db demo_rows) ''What is the weather?'' True))
       = [St_set_page_config ''Thira Beach Home'' [CHR 0xF0, CHR 0x9F, CHR 0x8F, CHR 0xA8],
          St_title ''Thira Beach Home'',
          St_markdown ''---'',
          St_write ''Welcome! Ask any questions about our hotel or room bookings.'',
          St_text_area ''Enter your query:'' 100,
          St_button ''Submit Query'' ''primary'',
          St_spinner ''Processing your query...'',
          St_error ''Invalid query classification. Please try again.'']
   \<and> handle_query (demo_env ''3'') (demo_db demo_rows)
        (JObj [(''query'', JStr ''What is the weather?'')]) =
       (Inr (Response (Json (JObj [(''error'', JStr ''Invalid query classification'')])) 500 []),
        demo_db demo_rows,
        [Chat (twilioo_classify_request (demo_env ''3'') (JStr ''What is the weather?''))])
   \<and> twilio_webhook (demo_env ''3'') (demo_db demo_rows)
        [(''From'', ''whatsapp:+910000000000''), (''Body'', ''What is the weather?'')] =
       (Inr (Response (Twiml ''Unable to classify your query.'') 200
               [(''Content-Type'', ''application/xml'')]),
        demo_db demo_rows,
        [Chat (twilioo_classify_request (demo_env ''3'') (JStr ''What is the weather?''))])"
proof -
  have c1: "fst (app_classify_query (demo_env ''3'') ''What is the weather?'') = Some ''3''"
    by (rule demo_app_classify) (rule strip_demo)
  have c2: "fst (twilioo_classify_query (demo_env ''3'') (JStr ''What is the weather?'')) = Inr ''3''"
    by (rule demo_twilioo_classify) (rule strip_demo)
  have ne: "''3'' \<noteq> ''1''" "''3'' \<noteq> ''2''"
    by simp_all
  show ?thesis
    using unrecognised_category_is_an_error [OF ne,
        of "demo_env ''3''" "demo_db demo_rows" "''What is the weather?''"
        "[(''query'', JStr ''What is the weather?'')]"
        "[(''From'', ''whatsapp:+910000000000''), (''Body'', ''What is the weather?'')]"
        "''What is the weather?''"]
      c1 c2
    by (simp add: demo_request demo_store app_page_def)
qed

text \<open>
  C5. When the classifier's result is \<^verbatim>\<open>"2"\<close>, the flow does not read the room store: it
  classifies, generates from the module's \<^verbatim>\<open>HOTEL_INFO\<close> constant and answers, with no store
  event in between, and the outcome is the same on any other store \<open>db'\<close> (an empty table
  included). On the browser UI the flow is the body of the submit button; the script run
  around it starts with \<^verbatim>\<open>init_database\<close>, whose two statements
  (\<^verbatim>\<open>CREATE TABLE IF NOT EXISTS\<close>, \<^verbatim>\<open>SELECT COUNT(*)\<close>) are the only ones of the run: the rows
  are never selected, and what the page shows does not depend on them.
\<close>

theorem info_query_never_reads_store:
  "(query \<noteq> [] \<and> fst (app_classify_query e query) = Some ''2'' \<longrightarrow>
      app_submit e db query =
        (db, [St (St_spinner ''Processing your query...''),
              Chat (app_classify_request query),
              Chat (app_generate_request query app_HOTEL_INFO),
              St (St_success ''Response:''),
              St (St_write (fst (app_generate_response e query app_HOTEL_INFO)))])
      \<and> store_events (snd (app_submit e db query)) = []
      \<and> snd (app_submit e db' query) = snd (app_submit e db query)
      \<and> (truthy_str (GROQ_API_KEY e) \<and> connect_error db = None \<longrightarrow>
           statements (snd (app_main e db query True)) =
             [CREATE_TABLE_IF_NOT_EXISTS_room_data, SELECT_COUNT_FROM_room_data]
           \<and> st_calls (snd (app_main e db query True)) =
               [St_set_page_config ''Thira Beach Home'' [CHR 0xF0, CHR 0x9F, CHR 0x8F, CHR 0xA8]]
               @ st_calls app_page @
               [St_spinner ''Processing your query...'', St_success ''Response:'',
                St_write (fst (app_generate_response e query app_HOTEL_INFO))]))
   \<and> (truthy (dict_get d ''query'' (JStr '''')) \<and>
      fst (twilioo_classify_query e (dict_get d ''query'' (JStr ''''))) = Inr ''2'' \<longrightarrow>
        handle_query e db (JObj d) =
          (case fst (twilioo_generate_response e (dict_get d ''query'' (JStr ''''))
                       twilioo_HOTEL_INFO) of
             Inl ex \<Rightarrow> Inl ex
           | Inr response \<Rightarrow> Inr (Response (Json (JObj [(''response'', JStr response)])) 200 []),
           db,
           [Chat (twilioo_classify_request e (dict_get d ''query'' (JStr ''''))),
            Chat (twilioo_generate_request e (dict_get d ''query'' (JStr '''')) twilioo_HOTEL_INFO)])
        \<and> store_events (snd (snd (handle_query e db (JObj d)))) = []
        \<and> fst (handle_query e db' (JObj d)) = fst (handle_query e db (JObj d)))
   \<and> (truthy_str (form_get form ''From'') \<and> form_get form ''Body'' = Some body \<and> body \<noteq> [] \<and>
      fst (twilioo_classify_query e (JStr body)) = Inr ''2'' \<longrightarrow>
        twilio_webhook e db form =
          (case fst (twilioo_generate_response e (JStr body) twilioo_HOTEL_INFO) of
             Inl ex \<Rightarrow> Inl ex
           | Inr response_text \<Rightarrow>
               Inr (Response (Twiml response_text) 200 [(''Content-Type'', ''application/xml'')]),
           db,
           [Chat (twilioo_classify_request e (JStr body)),
            Chat (twilioo_generate_request e (JStr body) twilioo_HOTEL_INFO)])
        \<and> store_events (snd (snd (twilio_webhook e db form))) = []
        \<and> fst (twilio_webhook e db' form) = fst (twilio_webhook e db form))"
proof (intro conjI impI)
  assume a: "query \<noteq> [] \<and> fst (app_classify_query e query) = Some ''2''"
  then have s: "\<And>db. app_submit e db query =
        (db, [St (St_spinner ''Processing your query...''),
              Chat (app_classify_request query),
              Chat (app_generate_request query app_HOTEL_INFO),
              St (St_success ''Response:''),
              St (St_write (fst (app_generate_response e query app_HOTEL_INFO)))])"
    using app_submit_info [of query e] by simp
  show "app_submit e db query =
        (db, [St (St_spinner ''Processing your query...''),
              Chat (app_classify_request query),
              Chat (app_generate_request query app_HOTEL_INFO),
              St (St_success ''Response:''),
              St (St_write (fst (app_generate_response e query app_HOTEL_INFO)))])"
    by (rule s)
  show "store_events (snd (app_submit e db query)) = []"
    by (simp add: s)
  show "snd (app_submit e db' query) = snd (app_submit e db query)"
    by (simp add: s)
  assume b: "truthy_str (GROQ_API_KEY e) \<and> connect_error db = None"
  show "statements (snd (app_main e db query True)) =
          [CREATE_TABLE_IF_NOT_EXISTS_room_data, SELECT_COUNT_FROM_room_data]"
    using b by (simp add: app_main_started s)
  show "st_calls (snd (app_main e db query True)) =
          [St_set_page_config ''Thira Beach Home'' [CHR 0xF0, CHR 0x9F, CHR 0x8F, CHR 0xA8]]
          @ st_calls app_page @
          [St_spinner ''Processing your query...'', St_success ''Response:'',
           St_write (fst (app_generate_response e query app_HOTEL_INFO))]"
    using b by (simp add: app_main_started s)
next
  assume a: "truthy (dict_get d ''query'' (JStr '''')) \<and>
             fst (twilioo_classify_query e (dict_get d ''query'' (JStr ''''))) = Inr ''2''"
  then have h: "\<And>db. handle_query e db (JObj d) =
          (case fst (twilioo_generate_response e (dict_get d ''query'' (JStr ''''))
                       twilioo_HOTEL_INFO) of
             Inl ex \<Rightarrow> Inl ex
           | Inr response \<Rightarrow> Inr (Response (Json (JObj [(''response'', JStr response)])) 200 []),
           db,
           [Chat (twilioo_classify_request e (dict_get d ''query'' (JStr ''''))),
            Chat (twilioo_generate_request e (dict_get d ''query'' (JStr '''')) twilioo_HOTEL_INFO)])"
    using handle_query_info [of d e] by simp
  show "handle_query e db (JObj d) =
          (case fst (twilioo_generate_response e (dict_get d ''query'' (JStr ''''))
                       twilioo_HOTEL_INFO) of
             Inl ex \<Rightarrow> Inl ex
           | Inr response \<Rightarrow> Inr (Response (Json (JObj [(''response'', JStr response)])) 200 []),
           db,
           [Chat (twilioo_classify_request e (dict_get d ''query'' (JStr ''''))),
            Chat (twilioo_generate_request e (dict_get d ''query'' (JStr '''')) twilioo_HOTEL_INFO)])"
    by (rule h)
  show "store_events (snd (snd (handle_query e db (JObj d)))) = []"
    by (simp add: h)
  show "fst (handle_query e db' (JObj d)) = fst (handle_query e db (JObj d))"
    by (simp add: h)
next
  assume a: "truthy_str (form_get form ''From'') \<and> form_get form ''Body'' = Some body \<and>
             body \<noteq> [] \<and> fst (twilioo_classify_query e (JStr body)) = Inr ''2''"
  then have h: "\<And>db. twilio_webhook e db form =
          (case fst (twilioo_generate_response e (JStr body) twilioo_HOTEL_INFO) of
             Inl ex \<Rightarrow> Inl ex
           | Inr response_text \<Rightarrow>
               Inr (Response (Twiml response_text) 200 [(''Content-Type'', ''application/xml'')]),
           db,
           [Chat (twilioo_classify_request e (JStr body)),
            Chat (twilioo_generate_request e (JStr body) twilioo_HOTEL_INFO)])"
    using twilio_webhook_info [of form body e] by simp
  show "twilio_webhook e db form =
          (case fst (twilioo_generate_response e (JStr body) twilioo_HOTEL_INFO) of
             Inl ex \<Rightarrow> Inl ex
           | Inr response_text \<Rightarrow>
               Inr (Response (Twiml response_text) 200 [(''Content-Type'', ''application/xml'')]),
           db,
           [Chat (twilioo_classify_request e (JStr body)),
            Chat (twilioo_generate_request e (JStr body) twilioo_HOTEL_INFO)])"
    by (rule h)
  show "store_events (snd (snd (twilio_webhook e db form))) = []"
    by (simp add: h)
  show "fst (twilio_webhook e db' form) = fst (twilio_webhook e db form)"
    by (simp add: h)
qed

theorem info_query_never_reads_store_witness:
  "fst (app_classify_query (demo_env (''2'' @ NL)) ''Is there air conditioning?'') = Some ''2''
   \<and> fst (twilioo_classify_query (demo_env (''2'' @ NL)) (JStr ''Is there air conditioning?''))
       = Inr ''2''
   \<and> app_submit (demo_env (''2'' @ NL)) (demo_db []) ''Is there air conditioning?'' =
       (demo_db [],
        [St (St_spinner ''Processing your query...''),
         Chat (app_classify_request ''Is there air conditioning?''),
         Chat (app_generate_request ''Is there air conditioning?'' app_HOTEL_INFO),
         St (St_success ''Response:''),
         St (St_write ''Welcome to Thira Beach Home.'')])
   \<and> snd (app_submit (demo_env (''2'' @ NL)) (demo_db demo_rows) ''Is there air conditioning?'')
       = snd (app_submit (demo_env (''2'' @ NL)) (demo_db []) ''Is there air conditioning?'')
   \<and> statements (snd (app_main (demo_env (''2'' @ NL)) (demo_db [])
                        ''Is there air conditioning?'' True)) =
       [CREATE_TABLE_IF_NOT_EXISTS_room_data, SELECT_COUNT_FROM_room_data]
   \<and> handle_query (demo_env (''2'' @ NL)) (demo_db [])
        (JObj [(''query'', JStr ''Is there air conditioning?'')]) =
       (Inr (Response (Json (JObj [(''response'', JStr ''Welcome to Thira Beach Home.'')])) 200 []),
        demo_db [],
        [Chat (twilioo_classify_request (demo_env (''2'' @ NL)) (JStr ''Is there air conditioning?'')),
         Chat (twilioo_generate_request (demo_env (''2'' @ NL)) (JStr ''Is there air conditioning?'')
                 twilioo_HOTEL_INFO)])
   \<and> fst (handle_query (demo_env (''2'' @ NL)) (demo_db demo_rows)
             (JObj [(''query'', JStr ''Is there air conditioning?'')]))
       = fst (handle_query (demo_env (''2'' @ NL)) (demo_db [])
                (JObj [(''query'', JStr ''Is there air conditioning?'')]))
   \<and> twilio_webhook (demo_env (''2'' @ NL)) (demo_db [])
        [(''From'', ''whatsapp:+910000000000''), (''Body'', ''Is there air conditioning?'')] =
       (Inr (Response (Twiml ''Welcome to Thira Beach Home.'') 200
               [(''Content-Type'', ''application/xml'')]),
        demo_db [],
        [Chat (twilioo_classify_request (demo_env (''2'' @ NL)) (JStr ''Is there air conditioning?'')),
         Chat (twilioo_generate_request (demo_env (''2'' @ NL)) (JStr ''Is there air conditioning?'')
                 twilioo_HOTEL_INFO)])
   \<and> fst (twilio_webhook (demo_env (''2'' @ NL)) (demo_db demo_rows)
             [(''From'', ''whatsapp:+910000000000''), (''Body'', ''Is there air conditioning?'')])
       = fst (twilio_webhook (demo_env (''2'' @ NL)) (demo_db [])
                [(''From'', ''whatsapp:+910000000000''), (''Body'', ''Is there air conditioning?'')])"
proof -
  have c1: "fst (app_classify_query (demo_env (''2'' @ NL)) ''Is there air conditioning?'')
            = Some ''2''"
    by (rule demo_app_classify) (rule strip_demo)
  have c2: "fst (twilioo_classify_query (demo_env (''2'' @ NL))
                   (JStr ''Is there air conditioning?'')) = Inr ''2''"
    by (rule demo_twilioo_classify) (rule strip_demo)
  show ?thesis
    using info_query_never_reads_store [of "''Is there air conditioning?''"
        "demo_env (''2'' @ NL)" "demo_db []" "demo_db demo_rows"
        "[(''query'', JStr ''Is there air conditioning?'')]"
        "[(''From'', ''whatsapp:+910000000000''), (''Body'', ''Is there air conditioning?'')]"
        "''Is there air conditioning?''"]
      c1 c2
    by (simp add: demo_request demo_store demo_generate)
qed

text \<open>
  C6. No request changes the room records. \<^verbatim>\<open>POST /query\<close>, \<^verbatim>\<open>POST /twilio_webhook\<close> and the
  submit flow of the browser UI return the store exactly as they found it; a whole run of
  \<^verbatim>\<open>main\<close> leaves the records as they were (its \<^verbatim>\<open>CREATE TABLE IF NOT EXISTS\<close> adds an empty
  table when there was none, and changes nothing when the table exists). The context
  resolver \<^verbatim>\<open>fetch_room_details\<close> of either module issues no statement but the
  \<^verbatim>\<open>SELECT\<close>, which leaves the store as it was. (\<^verbatim>\<open>POST /send_email\<close> has no access to the
  store at all.)
\<close>

theorem room_records_unchanged:
  "fst (snd (handle_query e db data)) = db
   \<and> fst (snd (twilio_webhook e db form)) = db
   \<and> fst (app_submit e db query) = db
   \<and> records (fst (app_main e db query clicked)) = records db
   \<and> (room_data db \<noteq> None \<longrightarrow> fst (app_main e db query clicked) = db)
   \<and> fst (snd (app_fetch_room_details db)) = db
   \<and> fst (snd (twilioo_fetch_room_details db)) = db
   \<and> set (statements (snd (snd (app_fetch_room_details db))))
        \<subseteq> {SELECT_title_description_FROM_room_data}
   \<and> set (statements (snd (snd (twilioo_fetch_room_details db))))
        \<subseteq> {SELECT_title_description_FROM_room_data}
   \<and> snd (execute SELECT_title_description_FROM_room_data db) = db"
proof -
  have a: "fst (snd (app_fetch_room_details db)) = db"
    using app_fetch_room_details_unchanged [of db]
    by (cases "app_fetch_room_details db") simp
  have t: "fst (snd (twilioo_fetch_room_details db)) = db"
    using twilioo_fetch_room_details_unchanged [of db]
    by (cases "twilioo_fetch_room_details db") simp
  show ?thesis
    using a t handle_query_unchanged [of e db data] twilio_webhook_unchanged [of e db form]
      app_submit_unchanged [of e db query] app_main_records(1) [of e db query clicked]
      app_main_table_exists [of db e query clicked]
      fetch_room_details_statements [of db] execute_select_unchanged(1) [of db]
    by simp
qed

theorem room_records_unchanged_witness:
  "fst (snd (handle_query (demo_env '' 1 '') (demo_db demo_rows)
               (JObj [(''query'', JStr ''Can I book a room?'')]))) = demo_db demo_rows
   \<and> fst (snd (twilio_webhook (demo_env '' 1 '') (demo_db demo_rows)
                 [(''From'', ''whatsapp:+910000000000''), (''Body'', ''Can I book a room?'')]))
       = demo_db demo_rows
   \<and> fst (app_submit (demo_env '' 1 '') (demo_db demo_rows) ''Can I book a room?'')
       = demo_db demo_rows
   \<and> fst (app_main (demo_env '' 1 '') (demo_db demo_rows) ''Can I book a room?'' True)
       = demo_db demo_rows
   \<and> records (fst (app_main (demo_env '' 1 '') \<lparr>connect_error = None, room_data = None\<rparr>
                      ''Can I book a room?'' True)) = []"
  using room_records_unchanged [of "demo_env '' 1 ''" "demo_db demo_rows"
      "JObj [(''query'', JStr ''Can I book a room?'')]"
      "[(''From'', ''whatsapp:+910000000000''), (''Body'', ''Can I book a room?'')]"
      "''Can I book a room?''" True]
    room_records_unchanged [of "demo_env '' 1 ''" "\<lparr>connect_error = None, room_data = None\<rparr>"
      "JObj [(''query'', JStr ''Can I book a room?'')]"
      "[(''From'', ''whatsapp:+910000000000''), (''Body'', ''Can I book a room?'')]"
      "''Can I book a room?''" True]
  by (simp add: demo_store records_def)

text \<open>
  C7. A \<^verbatim>\<open>POST /send_email\<close> whose JSON object has no \<^verbatim>\<open>email\<close> field, or has an empty one
  (more generally: one that Python counts as false), is answered with status 400 and the
  body \<^verbatim>\<open>{"error": "Email is required"}\<close>, and nothing is posted to the mail service: the
  request leaves no event.
\<close>

theorem send_email_requires_recipient:
  "(map_of d ''email'' = None \<or> map_of d ''email'' = Some (JStr '''') \<or>
    \<not> truthy (dict_get d ''email'' JNull)) \<longrightarrow>
     handle_send_email e (JObj d) =
       (Inr (Response (Json (JObj [(''error'', JStr ''Email is required'')])) 400 []), [])
     \<and> posts (snd (handle_send_email e (JObj d))) = []"
proof
  assume "map_of d ''email'' = None \<or> map_of d ''email'' = Some (JStr '''') \<or>
          \<not> truthy (dict_get d ''email'' JNull)"
  then have "\<not> truthy (dict_get d ''email'' JNull)"
    by (auto simp: dict_get_def)
  then show "handle_send_email e (JObj d) =
       (Inr (Response (Json (JObj [(''error'', JStr ''Email is required'')])) 400 []), [])
     \<and> posts (snd (handle_send_email e (JObj d))) = []"
    by (simp add: handle_send_email_rejects)
qed

theorem send_email_requires_recipient_witness:
  "map_of [(''subject'', JStr ''Hello''), (''body'', JStr ''Rooms'')] ''email'' = None
   \<and> map_of [(''email'', JStr ''''), (''subject'', JStr ''Hello'')] ''email'' = Some (JStr '''')
   \<and> handle_send_email (demo_env '''') (JObj [(''subject'', JStr ''Hello''), (''body'', JStr ''Rooms'')])
       = (Inr (Response (Json (JObj [(''error'', JStr ''Email is required'')])) 400 []), [])
   \<and> handle_send_email (demo_env '''') (JObj [(''email'', JStr ''''), (''subject'', JStr ''Hello'')])
       = (Inr (Response (Json (JObj [(''error'', JStr ''Email is required'')])) 400 []), [])"
  using send_email_requires_recipient
      [of "[(''subject'', JStr ''Hello''), (''body'', JStr ''Rooms'')]" "demo_env ''''"]
    send_email_requires_recipient
      [of "[(''email'', JStr ''''), (''subject'', JStr ''Hello'')]" "demo_env ''''"]
  by simp

text \<open>
  C8. A \<^verbatim>\<open>POST /twilio_webhook\<close> whose form lacks \<^verbatim>\<open>From\<close> or \<^verbatim>\<open>Body\<close>, or has one of them
  empty, is answered with status 400 and the XML envelope
  \<^verbatim>\<open><Response><Message>Error: Phone number and message are required.</Message></Response>\<close>;
  the request leaves no event, so neither the classifier nor the generator is called.
\<close>

theorem webhook_requires_sender_and_body:
  "(form_get form ''From'' = None \<or> form_get form ''From'' = Some '''' \<or>
    form_get form ''Body'' = None \<or> form_get form ''Body'' = Some '''') \<longrightarrow>
     twilio_webhook e db form =
       (Inr (Response
               (Text ''<Response><Message>Error: Phone number and message are required.</Message></Response>'')
               400 [(''Content-Type'', ''application/xml'')]),
        db, [])
     \<and> chat_calls (snd (snd (twilio_webhook e db form))) = []"
proof
  assume "form_get form ''From'' = None \<or> form_get form ''From'' = Some '''' \<or>
          form_get form ''Body'' = None \<or> form_get form ''Body'' = Some ''''"
  then have "\<not> truthy_str (form_get form ''From'') \<or> \<not> truthy_str (form_get form ''Body'')"
    by auto
  then show "twilio_webhook e db form =
       (Inr (Response
               (Text ''<Response><Message>Error: Phone number and message are required.</Message></Response>'')
               400 [(''Content-Type'', ''application/xml'')]),
        db, [])
     \<and> chat_calls (snd (snd (twilio_webhook e db form))) = []"
    by (auto simp: twilio_webhook_def Let_def)
qed

theorem webhook_requires_sender_and_body_witness:
  "form_get [(''Body'', ''Can I book a room?'')] ''From'' = None
   \<and> form_get [(''From'', ''whatsapp:+910000000000''), (''Body'', '''')] ''Body'' = Some ''''
   \<and> twilio_webhook (demo_env '' 1 '') (demo_db demo_rows) [(''Body'', ''Can I book a room?'')] =
       (Inr (Response
               (Text ''<Response><Message>Error: Phone number and message are required.</Message></Response>'')
               400 [(''Content-Type'', ''application/xml'')]),
        demo_db demo_rows, [])
   \<and> twilio_webhook (demo_env '' 1 '') (demo_db demo_rows)
        [(''From'', ''whatsapp:+910000000000''), (''Body'', '''')] =
       (Inr (Response
               (Text ''<Response><Message>Error: Phone number and message are required.</Message></Response>'')
               400 [(''Content-Type'', ''application/xml'')]),
        demo_db demo_rows, [])"
  using webhook_requires_sender_and_body
      [of "[(''Body'', ''Can I book a room?'')]" "demo_env '' 1 ''" "demo_db demo_rows"]
    webhook_requires_sender_and_body
      [of "[(''From'', ''whatsapp:+910000000000''), (''Body'', '''')]" "demo_env '' 1 ''"
          "demo_db demo_rows"]
  by (simp add: form_get_def)

text \<open>
  C9. A \<^verbatim>\<open>POST /send_email\<close> with a recipient is never refused for want of a subject or a
  body: a missing \<^verbatim>\<open>subject\<close> is sent as \<^verbatim>\<open>Room Availability at Thira Beach Home\<close>, a missing
  \<^verbatim>\<open>body\<close> as \<^verbatim>\<open>Here are the details of the available rooms.\<close>, the mail is posted in every
  case, and a reply of the view, when the post returns, has status 200.
\<close>

theorem send_email_defaults:
  assumes "truthy (dict_get d ''email'' JNull)"
  shows "(map_of d ''subject'' = None \<longrightarrow>
           snd (handle_send_email e (JObj d)) =
             [Post ''https://api.postmarkapp.com/email''
                [(''Accept'', JStr ''application/json''),
                 (''Content-Type'', JStr ''application/json''),
                 (''X-Postmark-Server-Token'', opt_json (POSTMARK_API_KEY e))]
                (JObj [(''From'', opt_json (SENDER_EMAIL e)),
                       (''To'', dict_get d ''email'' JNull),
                       (''Subject'', JStr ''Room Availability at Thira Beach Home''),
                       (''TextBody'',
                        dict_get d ''body'' (JStr ''Here are the details of the available rooms.''))])])
       \<and> (map_of d ''body'' = None \<longrightarrow>
           snd (handle_send_email e (JObj d)) =
             [Post ''https://api.postmarkapp.com/email''
                [(''Accept'', JStr ''application/json''),
                 (''Content-Type'', JStr ''application/json''),
                 (''X-Postmark-Server-Token'', opt_json (POSTMARK_API_KEY e))]
                (JObj [(''From'', opt_json (SENDER_EMAIL e)),
                       (''To'', dict_get d ''email'' JNull),
                       (''Subject'',
                        dict_get d ''subject'' (JStr ''Room Availability at Thira Beach Home'')),
                       (''TextBody'', JStr ''Here are the details of the available rooms.'')])])
       \<and> length (posts (snd (handle_send_email e (JObj d)))) = 1
       \<and> (\<forall>r. fst (handle_send_email e (JObj d)) = Inr r \<longrightarrow> status r = 200)"
proof -
  have s: "map_of d ''subject'' = None \<Longrightarrow>
           dict_get d ''subject'' (JStr ''Room Availability at Thira Beach Home'')
             = JStr ''Room Availability at Thira Beach Home''"
    by (simp add: dict_get_def)
  have b: "map_of d ''body'' = None \<Longrightarrow>
           dict_get d ''body'' (JStr ''Here are the details of the available rooms.'')
             = JStr ''Here are the details of the available rooms.''"
    by (simp add: dict_get_def)
  have ev: "snd (handle_send_email e (JObj d)) =
             [Post ''https://api.postmarkapp.com/email''
                [(''Accept'', JStr ''application/json''),
                 (''Content-Type'', JStr ''application/json''),
                 (''X-Postmark-Server-Token'', opt_json (POSTMARK_API_KEY e))]
                (JObj [(''From'', opt_json (SENDER_EMAIL e)),
                       (''To'', dict_get d ''email'' JNull),
                       (''Subject'',
                        dict_get d ''subject'' (JStr ''Room Availability at Thira Beach Home'')),
                       (''TextBody'',
                        dict_get d ''body'' (JStr ''Here are the details of the available rooms.''))])]"
    by (simp add: handle_send_email_sends [OF assms] send_email_events)
  have st: "\<forall>r. fst (handle_send_email e (JObj d)) = Inr r \<longrightarrow> status r = 200"
    by (auto simp: handle_send_email_sends [OF assms] split: sum.splits)
  show ?thesis
    using s b st by (simp add: ev)
qed

theorem send_email_defaults_witness:
  "truthy (dict_get [(''email'', JStr ''guest@example.com'')] ''email'' JNull)
   \<and> map_of [(''email'', JStr ''guest@example.com'')] ''subject'' = None
   \<and> map_of [(''email'', JStr ''guest@example.com'')] ''body'' = None
   \<and> handle_send_email (demo_env '''') (JObj [(''email'', JStr ''guest@example.com'')]) =
       (Inr (Response (Json (JObj [(''success'', JBool True),
                                   (''message'', JStr ''Email sent successfully'')])) 200 []),
        [Post ''https://api.postmarkapp.com/email''
           [(''Accept'', JStr ''application/json''),
            (''Content-Type'', JStr ''application/json''),
            (''X-Postmark-Server-Token'', JStr ''pm_demo'')]
           (JObj [(''From'', JStr ''frontdesk@example.com''),
                  (''To'', JStr ''guest@example.com''),
                  (''Subject'', JStr ''Room Availability at Thira Beach Home''),
                  (''TextBody'', JStr ''Here are the details of the available rooms.'')])])"
proof -
  have t: "truthy (dict_get [(''email'', JStr ''guest@example.com'')] ''email'' JNull)"
    by (simp add: dict_get_def)
  have r: "fst (handle_send_email (demo_env '''') (JObj [(''email'', JStr ''guest@example.com'')])) =
       Inr (Response (Json (JObj [(''success'', JBool True),
                                  (''message'', JStr ''Email sent successfully'')])) 200 [])"
    by (simp add: handle_send_email_def send_email_def dict_get_def demo_env_def Let_def)
  show ?thesis
    using send_email_defaults [OF t, of "demo_env ''''"] t r
    by (simp add: prod_eq_iff dict_get_def demo_env_def opt_json_def)
qed

text \<open>
  C10. A \<^verbatim>\<open>POST /twilio_webhook\<close> with both fields present, whose classification is a string
  other than \<^verbatim>\<open>"1"\<close> and \<^verbatim>\<open>"2"\<close>, is answered with status 200 (not 4xx or 5xx) and a
  messaging reply whose text is \<^verbatim>\<open>Unable to classify your query.\<close>.
\<close>

theorem webhook_unclassified_is_200:
  assumes "truthy_str (form_get form ''From'')" "truthy_str (form_get form ''Body'')"
    and "fst (twilioo_classify_query e (opt_json (form_get form ''Body''))) = Inr c"
    and "c \<noteq> ''1''" "c \<noteq> ''2''"
  shows "fst (twilio_webhook e db form) =
           Inr (Response (Twiml ''Unable to classify your query.'') 200
                  [(''Content-Type'', ''application/xml'')])"
proof -
  obtain body where b: "form_get form ''Body'' = Some body" "body \<noteq> []"
    using assms(2) by (cases "form_get form ''Body''") simp_all
  show ?thesis
    using assms b twilio_webhook_unclassified [of form body e c db]
    by (simp add: opt_json_def)
qed

theorem webhook_unclassified_is_200_witness:
  "truthy_str (form_get [(''From'', ''whatsapp:+910000000000''), (''Body'', ''Tell me a joke'')] ''From'')
   \<and> truthy_str (form_get [(''From'', ''whatsapp:+910000000000''), (''Body'', ''Tell me a joke'')] ''Body'')
   \<and> fst (twilioo_classify_query (demo_env ''I cannot say'')
            (opt_json (form_get [(''From'', ''whatsapp:+910000000000''), (''Body'', ''Tell me a joke'')]
                         ''Body''))) = Inr ''I cannot say''
   \<and> fst (twilio_webhook (demo_env ''I cannot say'') (demo_db demo_rows)
            [(''From'', ''whatsapp:+910000000000''), (''Body'', ''Tell me a joke'')]) =
       Inr (Response (Twiml ''Unable to classify your query.'') 200
              [(''Content-Type'', ''application/xml'')])
   \<and> status (Response (Twiml ''Unable to classify your query.'') 200
               [(''Content-Type'', ''application/xml'')]) = 200"
proof -
  have f: "truthy_str (form_get [(''From'', ''whatsapp:+910000000000''), (''Body'', ''Tell me a joke'')]
                         ''From'')"
    "truthy_str (form_get [(''From'', ''whatsapp:+910000000000''), (''Body'', ''Tell me a joke'')]
                   ''Body'')"
    by (simp_all add: form_get_def)
  have c: "fst (twilioo_classify_query (demo_env ''I cannot say'')
            (opt_json (form_get [(''From'', ''whatsapp:+910000000000''), (''Body'', ''Tell me a joke'')]
                         ''Body''))) = Inr ''I cannot say''"
    by (rule demo_twilioo_classify) (rule strip_demo)
  have ne: "''I cannot say'' \<noteq> ''1''" "''I cannot say'' \<noteq> ''2''"
    by simp_all
  show ?thesis
    using webhook_unclassified_is_200 [OF f c ne, of "demo_db demo_rows"] f c
    by simp
qed

end
